theory Spec2Isabelle
  imports Main "HOL-Library.AList" "HOL-Library.Char_ord" "HOL-Library.List_Lexorder"
begin

section \<open>The mender-artifact command line: a shallow embedding\<close>

text \<open>
  The repository's two sources are the command-line front end of the artifact tool:
  the main file (\<open>write\<close>, \<open>read\<close>, \<open>validate\<close>, \<open>sign\<close>, \<open>modify\<close>, \<open>repack\<close>) and
  \<open>cli/mender-artifact/validate.go\<close>. They call the packages \<open>areader\<close>, \<open>awriter\<close>,
  \<open>artifact\<close> and \<open>handlers\<close>, and \<open>os\<close>, \<open>ioutil\<close> and \<open>fmt\<close>. The functions the
  properties are about are translated line by line, each under the lines of its source;
  the packages they call are modelled from the specification, each under a comment
  that says so.

  Effects are explicit: every function takes the \<open>world\<close> (file system, the names the
  system hands out for temporary files, standard output) and returns the new one. A Go
  \<open>error\<close> is a value of the datatype \<open>error\<close>; \<open>nil\<close> is \<open>None\<close>. A Go closure that assigns
  to a variable of the enclosing function is a function on that variable's value.
\<close>

subsection \<open>Data model\<close>

type_synonym bytes = "nat list"
type_synonym path = string

text \<open>A content hash is symbolic: \<open>Digest b\<close> is the hash of exactly the bytes \<open>b\<close>.\<close>

datatype checksum = Digest bytes

record DataFile =
  Name :: string
  Size :: nat
  Date :: string
  Checksum :: checksum

text \<open>One payload on disk: its type tag, and per file the header entry and the bytes
  of the matching entry of the data archive.\<close>

record Payload =
  typeTag :: string
  payloadFiles :: "(DataFile \<times> bytes) list"

text \<open>The manifest is the value a signature covers: the header identity and the
  checksums of all data files, in file order.\<close>

datatype manifest =
  Manifest string int "string list" string "(string \<times> bytes) list"
    "(string \<times> (string \<times> checksum) list) list"

text \<open>A signature is symbolic as well: \<open>Signature k m\<close> is the signature made with the
  key \<open>k\<close> over the manifest \<open>m\<close>. A key stands for its pair: the verifier made from the
  public half of \<open>k\<close> accepts exactly the signatures made with \<open>k\<close>.\<close>

datatype signature = Signature bytes manifest

record Container =
  formatName :: string
  formatVersion :: int
  deviceTypes :: "string list"
  artifactName :: string
  containerScripts :: "(string \<times> bytes) list"
  containerSignature :: "signature option"
  updates :: "Payload list"

text \<open>A file holds raw bytes or the serialisation of a container.\<close>

datatype content = Data bytes | Archive Container

datatype node = File content | Dir

datatype error =
    Err string
  | Wrap error string
  | ExitError string int
  | OsError string path
  | FormatError
  | ChecksumMismatch string
  | UnsupportedPayloadType string
  | InvalidScriptName string
  | SignatureUnverifiable
  | SignatureInvalid
  | WriterRejected

text \<open>\<open>err.Error()\<close>: the message of an error. \<open>errors.Wrap(err, msg)\<close> prints
  \<open>msg: err\<close>. The library's errors print the name the specification gives them.\<close>

fun Error :: "error \<Rightarrow> string" where
  "Error (Err m) = m"
| "Error (Wrap e m) = m @ '': '' @ Error e"
| "Error (ExitError m c) = m"
| "Error (OsError op p) = op @ '' '' @ p @ '': operation failed''"
| "Error FormatError = ''FormatError''"
| "Error (ChecksumMismatch f) = ''ChecksumMismatch: '' @ f"
| "Error (UnsupportedPayloadType t) = ''UnsupportedPayloadType: '' @ t"
| "Error (InvalidScriptName n) = ''InvalidScriptName: '' @ n"
| "Error SignatureUnverifiable = ''could not verify: no key provided''"
| "Error SignatureInvalid = ''SignatureInvalid''"
| "Error WriterRejected = ''VersionConstraintViolation''"

text \<open>The exit status of the process: \<open>main\<close> exits with 1 on any error of \<open>run\<close>, and
  the command-line package exits with the code of a \<open>cli.NewExitError\<close>.\<close>

fun exit_status :: "error option \<Rightarrow> int" where
  "exit_status None = 0"
| "exit_status (Some (ExitError m c)) = c"
| "exit_status (Some e) = 1"

text \<open>What the packages decide that neither source file shows: whether the writer
  accepts a request (signer present, format, version, device types, name, scripts),
  which script names are recognised lifecycle states, the modification time the
  system reports for a file, the raw bytes of a serialised container, the text of a
  checksum, and the bytes a writer that fails after it has started leaves in its
  sink.\<close>

record lib =
  writer_accepts :: "bool \<Rightarrow> string \<Rightarrow> int \<Rightarrow> string list \<Rightarrow> string \<Rightarrow> path list \<Rightarrow> bool"
  valid_script :: "string \<Rightarrow> bool"
  mtime :: "path \<Rightarrow> string"
  raw :: "Container \<Rightarrow> bytes"
  hex :: "checksum \<Rightarrow> string"
  partial :: bytes

definition bytes_of :: "lib \<Rightarrow> content \<Rightarrow> bytes" where
  "bytes_of L c = (case c of Data b \<Rightarrow> b | Archive a \<Rightarrow> raw L a)"

subsection \<open>The operating system\<close>

text \<open>
  The file system is an association list from paths to nodes. \<open>tmp_names\<close> are the
  suffixes the system will choose for the temporary files and directories still to be
  created, in order; \<open>stdout\<close> is what was printed; \<open>emitted\<close> records everything the
  writer wrote, whole streams and the beginnings of failed ones, and the file it went
  to.
\<close>

record world =
  files :: "(path \<times> node) list"
  tmp_names :: "string list"
  stdout :: "string list"
  emitted :: "(path \<times> content) list"

definition node_at :: "world \<Rightarrow> path \<Rightarrow> node option" where
  "node_at w p = map_of (files w) p"

definition put :: "path \<Rightarrow> node \<Rightarrow> world \<Rightarrow> world" where
  "put p n w = w\<lparr>files := AList.update p n (files w)\<rparr>"

definition unlink :: "path \<Rightarrow> world \<Rightarrow> world" where
  "unlink p w = w\<lparr>files := AList.delete p (files w)\<rparr>"

definition print :: "string \<Rightarrow> world \<Rightarrow> world" where
  "print s w = w\<lparr>stdout := stdout w @ [s]\<rparr>"

definition os_Open :: "path \<Rightarrow> world \<Rightarrow> error + node" where
  "os_Open p w =
     (if p = [] then Inl (OsError ''open'' p)
      else case node_at w p of None \<Rightarrow> Inl (OsError ''open'' p) | Some n \<Rightarrow> Inr n)"

definition os_Stat :: "path \<Rightarrow> world \<Rightarrow> error + node" where
  "os_Stat p w =
     (if p = [] then Inl (OsError ''stat'' p)
      else case node_at w p of None \<Rightarrow> Inl (OsError ''stat'' p) | Some n \<Rightarrow> Inr n)"

text \<open>\<open>os.Create\<close> truncates an existing file; it fails on a directory.\<close>

definition os_Create :: "path \<Rightarrow> world \<Rightarrow> error option \<times> world" where
  "os_Create p w =
     (if p = [] then (Some (OsError ''create'' p), w)
      else if node_at w p = Some Dir then (Some (OsError ''create'' p), w)
      else (None, put p (File (Data [])) w))"

text \<open>\<open>os.OpenFile\<close> with \<open>O_WRONLY|O_CREATE|O_EXCL\<close>: fails when the path exists.\<close>

definition os_OpenFile_excl :: "path \<Rightarrow> world \<Rightarrow> error option \<times> world" where
  "os_OpenFile_excl p w =
     (if p = [] then (Some (OsError ''open'' p), w)
      else case node_at w p of
        Some n \<Rightarrow> (Some (OsError ''open'' p), w)
      | None \<Rightarrow> (None, put p (File (Data [])) w))"

definition inside :: "path \<Rightarrow> path \<Rightarrow> bool" where
  "inside d p = (take (Suc (length d)) p = d @ ''/'' \<and> Suc (length d) < length p)"

definition has_entries :: "path \<Rightarrow> world \<Rightarrow> bool" where
  "has_entries d w = list_ex (\<lambda>e. inside d (fst e)) (files w)"

text \<open>\<open>os.Remove\<close> deletes a file or an empty directory, and fails on a directory
  that has entries and on a path that does not exist.\<close>

definition os_Remove :: "path \<Rightarrow> world \<Rightarrow> error option \<times> world" where
  "os_Remove p w =
     (case node_at w p of
        None \<Rightarrow> (Some (OsError ''remove'' p), w)
      | Some (File c) \<Rightarrow> (None, unlink p w)
      | Some Dir \<Rightarrow>
          if has_entries p w then (Some (OsError ''remove'' p), w) else (None, unlink p w))"

text \<open>\<open>os.Rename\<close> of a regular file: it replaces a file at the new path and fails when
  the old path is missing or the new one is a directory. Moving a directory is not
  modelled (no caller does it) and is a failure here.\<close>

definition os_Rename :: "path \<Rightarrow> path \<Rightarrow> world \<Rightarrow> error option \<times> world" where
  "os_Rename old new w =
     (case node_at w old of
        None \<Rightarrow> (Some (OsError ''rename'' old), w)
      | Some Dir \<Rightarrow> (Some (OsError ''rename'' old), w)
      | Some (File c) \<Rightarrow>
          if new = [] then (Some (OsError ''rename'' new), w)
          else if new = old then (None, w)
          else if node_at w new = Some Dir then (Some (OsError ''rename'' new), w)
          else (None, put new (File c) (unlink old w)))"

text \<open>\<open>ioutil.TempFile("", prefix)\<close> and \<open>ioutil.TempDir("", prefix)\<close>: the system picks
  the next suffix; the call fails when no name is left or the name is taken.\<close>

definition temp_node :: "node \<Rightarrow> string \<Rightarrow> world \<Rightarrow> (error + path) \<times> world" where
  "temp_node n pre w =
     (case tmp_names w of
        [] \<Rightarrow> (Inl (OsError ''mktemp'' pre), w)
      | s # rest \<Rightarrow>
          (let p = ''/tmp/'' @ pre @ s; w' = w\<lparr>tmp_names := rest\<rparr>
           in if node_at w p = None then (Inr p, put p n w')
              else (Inl (OsError ''mktemp'' p), w')))"

text \<open>The path the next temporary file or directory with this prefix gets.\<close>

definition temp_path :: "string \<Rightarrow> world \<Rightarrow> path option" where
  "temp_path pre w = (case tmp_names w of [] \<Rightarrow> None | s # rest \<Rightarrow> Some (''/tmp/'' @ pre @ s))"

definition ioutil_TempFile :: "string \<Rightarrow> world \<Rightarrow> (error + path) \<times> world" where
  "ioutil_TempFile pre w = temp_node (File (Data [])) pre w"

definition ioutil_TempDir :: "string \<Rightarrow> world \<Rightarrow> (error + path) \<times> world" where
  "ioutil_TempDir pre w = temp_node Dir pre w"

text \<open>\<open>ioutil.ReadDir\<close>: the names of the entries directly inside a directory, sorted.\<close>

definition entry_names :: "path \<Rightarrow> (path \<times> node) list \<Rightarrow> string list" where
  "entry_names d fs =
     filter (\<lambda>n. CHR ''/'' \<notin> set n)
       (map (\<lambda>e. drop (Suc (length d)) (fst e)) (filter (\<lambda>e. inside d (fst e)) fs))"

definition ioutil_ReadDir :: "path \<Rightarrow> world \<Rightarrow> error + string list" where
  "ioutil_ReadDir d w =
     (case node_at w d of
        Some Dir \<Rightarrow> Inr (sort (entry_names d (files w)))
      | Some (File c) \<Rightarrow> Inl (OsError ''readdir'' d)
      | None \<Rightarrow> Inl (OsError ''readdir'' d))"

text \<open>\<open>io.Copy(f, r)\<close> onto an open file: the bytes are appended to what the file holds.\<close>

definition io_Copy :: "lib \<Rightarrow> path \<Rightarrow> bytes \<Rightarrow> world \<Rightarrow> world" where
  "io_Copy L p b w =
     (case node_at w p of
        Some (File c) \<Rightarrow> put p (File (Data (bytes_of L c @ b))) w
      | Some Dir \<Rightarrow> w
      | None \<Rightarrow> w)"

definition filepath_Join :: "path \<Rightarrow> string \<Rightarrow> path" where
  "filepath_Join d n = d @ ''/'' @ n"

definition filepath_Base :: "path \<Rightarrow> string" where
  "filepath_Base p = rev (takeWhile (\<lambda>c. c \<noteq> CHR ''/'') (rev p))"

subsection \<open>The packages the command line calls\<close>

text \<open>Modelled from the spec: \<open>artifact.NewSigner(key).Sign\<close> and
  \<open>artifact.NewVerifier(key).Verify\<close>, which are not among the sources.
  "Signing capability: sign(manifestBytes) -> signatureBytes"; "Signature-verify
  capability: verify(manifestBytes, signatureBytes) -> error-or-nil".\<close>

definition Sign :: "bytes \<Rightarrow> manifest \<Rightarrow> signature" where
  "Sign key message = Signature key message"

definition Verify :: "bytes \<Rightarrow> manifest \<Rightarrow> signature \<Rightarrow> error option" where
  "Verify key message sig =
     (if sig = Signature key message then None else Some SignatureInvalid)"

definition manifest_of :: "Container \<Rightarrow> manifest" where
  "manifest_of c =
     Manifest (formatName c) (formatVersion c) (deviceTypes c) (artifactName c)
       (containerScripts c)
       (map (\<lambda>p. (typeTag p, map (\<lambda>f. (Name (fst f), Checksum (fst f))) (payloadFiles p)))
          (updates c))"

text \<open>The callbacks a caller gives the reader. A callback of the sources assigns to
  variables of the function that made it, or writes files: \<open>'s\<close> is that state.\<close>

type_synonym 's SignatureVerifyFn = "manifest \<Rightarrow> signature \<Rightarrow> 's \<Rightarrow> error option \<times> 's"
type_synonym 's ScriptsReadFn = "bytes \<Rightarrow> string \<Rightarrow> 's \<Rightarrow> error option \<times> 's"
type_synonym 's InstallFn = "bytes \<Rightarrow> DataFile \<Rightarrow> 's \<Rightarrow> error option \<times> 's"

datatype rstate = AwaitingVersion | AwaitingHeader | AwaitingData | AwaitingScripts | Done

record Info =
  Format :: string
  Version :: int

record 's Reader =
  input :: node
  VerifySignatureCallback :: "'s SignatureVerifyFn option"
  ScriptsReadCallback :: "'s ScriptsReadFn option"
  InstallHandler :: "'s InstallFn option"
  IsSigned :: bool
  state :: rstate
  info :: Info
  artifact_name :: string
  compatible_devices :: "string list"
  installers :: "(string \<times> DataFile list) list"

text \<open>Modelled from the spec: \<open>areader.NewReader\<close>, \<open>RegisterHandler\<close> and
  \<open>ReadArtifact\<close>, which are not among the sources. The reader follows the state machine
  of the specification: version probe, header (with the signature check of a signed
  artifact), the data of every payload, the scripts, \<open>Done\<close>. The sources read
  rootfs-image artifacts without registering a handler, so a new reader has the
  rootfs-image handler, which discards the bytes until \<open>RegisterHandler\<close> replaces its
  install operation; any other type tag is an \<open>UnsupportedPayloadType\<close>.\<close>

definition NewReader :: "node \<Rightarrow> 's Reader" where
  "NewReader n =
     \<lparr>input = n, VerifySignatureCallback = None, ScriptsReadCallback = None,
      InstallHandler = None, IsSigned = False, state = AwaitingVersion,
      info = \<lparr>Format = [], Version = 0\<rparr>, artifact_name = [],
      compatible_devices = [], installers = []\<rparr>"

definition RegisterHandler :: "'s InstallFn \<Rightarrow> 's Reader \<Rightarrow> 's Reader" where
  "RegisterHandler h ar = ar\<lparr>InstallHandler := Some h\<rparr>"

definition readVersion :: "'s Reader \<Rightarrow> error + (Container \<times> 's Reader)" where
  "readVersion ar =
     (case input ar of
        Dir \<Rightarrow> Inl FormatError
      | File (Data b) \<Rightarrow> Inl FormatError
      | File (Archive c) \<Rightarrow>
          if formatVersion c = 1 \<or> formatVersion c = 2
          then Inr (c, ar\<lparr>info := \<lparr>Format = formatName c, Version = formatVersion c\<rparr>,
                          state := AwaitingHeader\<rparr>)
          else Inl FormatError)"

definition readHeader :: "Container \<Rightarrow> 's Reader \<Rightarrow> 's \<Rightarrow> error option \<times> 's Reader \<times> 's" where
  "readHeader c ar s =
     (if formatVersion c = 1 \<and> \<not> (containerSignature c = None \<and> containerScripts c = [])
      then (Some FormatError, ar, s)
      else
        let ar1 = ar\<lparr>artifact_name := artifactName c, compatible_devices := deviceTypes c,
                      installers := map (\<lambda>p. (typeTag p, map fst (payloadFiles p))) (updates c)\<rparr>
        in case containerSignature c of
             None \<Rightarrow> (None, ar1\<lparr>state := AwaitingData\<rparr>, s)
           | Some sg \<Rightarrow>
               (case VerifySignatureCallback ar of
                  None \<Rightarrow> (Some SignatureUnverifiable, ar1\<lparr>IsSigned := True\<rparr>, s)
                | Some v \<Rightarrow>
                    (case v (manifest_of c) sg s of
                       (Some e, s') \<Rightarrow>
                         (Some (Wrap e ''reader: invalid signature''), ar1\<lparr>IsSigned := True\<rparr>, s')
                     | (None, s') \<Rightarrow>
                         (None, ar1\<lparr>IsSigned := True, state := AwaitingData\<rparr>, s'))))"

text \<open>Every file of a payload is streamed to the install operation, then its size and
  its checksum are compared with the header's.\<close>

fun readFiles :: "'s InstallFn option \<Rightarrow> (DataFile \<times> bytes) list \<Rightarrow> 's \<Rightarrow> error option \<times> 's" where
  "readFiles h [] s = (None, s)"
| "readFiles h (f # fs) s =
     (case (case h of None \<Rightarrow> (None, s) | Some install \<Rightarrow> install (snd f) (fst f) s) of
        (Some e, s') \<Rightarrow> (Some e, s')
      | (None, s') \<Rightarrow>
          if Size (fst f) \<noteq> length (snd f) then (Some FormatError, s')
          else if Checksum (fst f) \<noteq> Digest (snd f)
          then (Some (ChecksumMismatch (Name (fst f))), s')
          else readFiles h fs s')"

fun readPayloads :: "'s InstallFn option \<Rightarrow> Payload list \<Rightarrow> 's \<Rightarrow> error option \<times> 's" where
  "readPayloads h [] s = (None, s)"
| "readPayloads h (p # ps) s =
     (if typeTag p \<noteq> ''rootfs-image'' then (Some (UnsupportedPayloadType (typeTag p)), s)
      else case readFiles h (payloadFiles p) s of
             (Some e, s') \<Rightarrow> (Some e, s')
           | (None, s') \<Rightarrow> readPayloads h ps s')"

fun readScripts :: "lib \<Rightarrow> 's ScriptsReadFn option \<Rightarrow> (string \<times> bytes) list \<Rightarrow> 's \<Rightarrow> error option \<times> 's" where
  "readScripts L cb [] s = (None, s)"
| "readScripts L cb (x # xs) s =
     (if \<not> valid_script L (fst x) then (Some (InvalidScriptName (fst x)), s)
      else case (case cb of None \<Rightarrow> (None, s) | Some f \<Rightarrow> f (snd x) (fst x) s) of
             (Some e, s') \<Rightarrow> (Some e, s')
           | (None, s') \<Rightarrow> readScripts L cb xs s')"

definition ReadArtifact :: "lib \<Rightarrow> 's Reader \<Rightarrow> 's \<Rightarrow> error option \<times> 's Reader \<times> 's" where
  "ReadArtifact L ar s =
     (case readVersion ar of
        Inl e \<Rightarrow> (Some e, ar, s)
      | Inr (c, ar1) \<Rightarrow>
          (case readHeader c ar1 s of
             (Some e, ar2, s2) \<Rightarrow> (Some e, ar2, s2)
           | (None, ar2, s2) \<Rightarrow>
               (case readPayloads (InstallHandler ar) (updates c) s2 of
                  (Some e, s3) \<Rightarrow> (Some e, ar2, s3)
                | (None, s3) \<Rightarrow>
                    (case readScripts L (ScriptsReadCallback ar) (containerScripts c)
                            s3 of
                       (Some e, s4) \<Rightarrow> (Some e, ar2\<lparr>state := AwaitingScripts\<rparr>, s4)
                     | (None, s4) \<Rightarrow> (None, ar2\<lparr>state := Done\<rparr>, s4)))))"

text \<open>Modelled from the spec: \<open>artifact.Scripts\<close> (\<open>Add\<close>, \<open>Get\<close>), not among the
  sources: the script registry "validates each script name against the enumerated set
  of recognized lifecycle-hook identifiers", "preserves input order; does not
  deduplicate". The registry holds the paths of the script files.\<close>

definition Scripts_Add :: "lib \<Rightarrow> path list \<Rightarrow> path \<Rightarrow> error + path list" where
  "Scripts_Add L scr p =
     (if valid_script L (filepath_Base p) then Inr (scr @ [p])
      else Inl (InvalidScriptName (filepath_Base p)))"

text \<open>Modelled from the spec: \<open>handlers.NewRootfsV1\<close>, \<open>handlers.NewRootfsV2\<close> and the
  handler's compose operation, not among the sources: "for every DataFile, computes a
  streaming content hash while copying payload bytes into the data archive, and
  records the resulting digest plus size/name/modified-time".\<close>

datatype Rootfs = RootfsV1 path | RootfsV2 path

fun update_file :: "Rootfs \<Rightarrow> path" where
  "update_file (RootfsV1 p) = p"
| "update_file (RootfsV2 p) = p"

definition compose :: "lib \<Rightarrow> Rootfs \<Rightarrow> world \<Rightarrow> error + Payload" where
  "compose L h w =
     (case os_Open (update_file h) w of
        Inl e \<Rightarrow> Inl e
      | Inr Dir \<Rightarrow> Inl (OsError ''read'' (update_file h))
      | Inr (File c) \<Rightarrow>
          Inr \<lparr>typeTag = ''rootfs-image'',
               payloadFiles =
                 [(\<lparr>Name = filepath_Base (update_file h), Size = length (bytes_of L c),
                    Date = mtime L (update_file h), Checksum = Digest (bytes_of L c)\<rparr>,
                   bytes_of L c)]\<rparr>)"

fun compose_all :: "lib \<Rightarrow> Rootfs list \<Rightarrow> world \<Rightarrow> error + Payload list" where
  "compose_all L [] w = Inr []"
| "compose_all L (h # hs) w =
     (case compose L h w of
        Inl e \<Rightarrow> Inl e
      | Inr p \<Rightarrow> (case compose_all L hs w of Inl e \<Rightarrow> Inl e | Inr ps \<Rightarrow> Inr (p # ps)))"

fun pack_scripts :: "lib \<Rightarrow> path list \<Rightarrow> world \<Rightarrow> error + (string \<times> bytes) list" where
  "pack_scripts L [] w = Inr []"
| "pack_scripts L (p # ps) w =
     (case os_Open p w of
        Inl e \<Rightarrow> Inl e
      | Inr Dir \<Rightarrow> Inl (OsError ''read'' p)
      | Inr (File c) \<Rightarrow>
          (case pack_scripts L ps w of
             Inl e \<Rightarrow> Inl e
           | Inr xs \<Rightarrow> Inr ((filepath_Base p, bytes_of L c) # xs)))"

text \<open>Modelled from the spec: \<open>awriter.NewWriter\<close>, \<open>awriter.NewWriterSigned\<close> and
  \<open>WriteArtifact\<close>, not among the sources. The writer's own validation is the parameter
  \<open>writer_accepts\<close>; a request it refuses fails before a byte is written. An accepted
  request composes every payload, packs the scripts, signs the manifest when a signer
  was given, and writes the stream to its sink; when a payload or a script cannot be
  read, it fails and leaves the beginning of a stream in its sink. "Version 1 omits scripts and signatures
  entirely."\<close>

record Writer =
  sink :: path
  signer :: "bytes option"

definition NewWriter :: "path \<Rightarrow> Writer" where
  "NewWriter f = \<lparr>sink = f, signer = None\<rparr>"

definition NewWriterSigned :: "path \<Rightarrow> bytes \<Rightarrow> Writer" where
  "NewWriterSigned f key = \<lparr>sink = f, signer = Some key\<rparr>"

definition assemble :: "bytes option \<Rightarrow> string \<Rightarrow> int \<Rightarrow> string list \<Rightarrow> string \<Rightarrow>
    Payload list \<Rightarrow> (string \<times> bytes) list \<Rightarrow> Container" where
  "assemble sg format ver devices name ps ss =
     (let c = \<lparr>formatName = format, formatVersion = ver, deviceTypes = devices,
               artifactName = name, containerScripts = (if ver = 1 then [] else ss),
               containerSignature = None, updates = ps\<rparr>
      in c\<lparr>containerSignature :=
             (if ver = 1 then None else map_option (\<lambda>k. Sign k (manifest_of c)) sg)\<rparr>)"

text \<open>A write of the writer to its sink, recorded in \<open>emitted\<close>.\<close>

definition emit :: "path \<Rightarrow> content \<Rightarrow> world \<Rightarrow> world" where
  "emit p x w = (put p (File x) w)\<lparr>emitted := emitted w @ [(p, x)]\<rparr>"

definition WriteArtifact :: "lib \<Rightarrow> Writer \<Rightarrow> string \<Rightarrow> int \<Rightarrow> string list \<Rightarrow> string \<Rightarrow>
    Rootfs list \<Rightarrow> path list \<Rightarrow> world \<Rightarrow> error option \<times> world" where
  "WriteArtifact L aw format ver devices name upd scr w =
     (if \<not> writer_accepts L (signer aw \<noteq> None) format ver devices name scr
      then (Some WriterRejected, w)
      else case compose_all L upd w of
        Inl e \<Rightarrow> (Some e, emit (sink aw) (Data (partial L)) w)
      | Inr ps \<Rightarrow>
          (case pack_scripts L scr w of
             Inl e \<Rightarrow> (Some e, emit (sink aw) (Data (partial L)) w)
           | Inr ss \<Rightarrow>
               (None, emit (sink aw)
                        (Archive (assemble (signer aw) format ver devices name ps ss)) w)))"

text \<open>The artifacts among what the writer wrote.\<close>

fun archive_of :: "content \<Rightarrow> Container list" where
  "archive_of (Archive a) = [a]"
| "archive_of (Data b) = []"

definition checksums :: "Container \<Rightarrow> checksum list" where
  "checksums c = concat (map (\<lambda>p. map (\<lambda>f. Checksum (fst f)) (payloadFiles p)) (updates c))"

definition artifacts_written :: "world \<Rightarrow> Container list" where
  "artifacts_written w = concat (map (\<lambda>e. archive_of (snd e)) (emitted w))"

subsection \<open>Formatting\<close>

definition quote :: string where
  "quote = [CHR 0x27]"

definition newline :: string where
  "newline = [CHR 0x0A]"

definition digit :: "nat \<Rightarrow> char" where
  "digit n = ''0123456789'' ! (n mod 10)"

fun show_nat :: "nat \<Rightarrow> string" where
  "show_nat n = (if n < 10 then [digit n] else show_nat (n div 10) @ [digit (n mod 10)])"

declare show_nat.simps [simp del]

text \<open>The verbs \<open>%d\<close> and \<open>%04d\<close> of \<open>fmt.Printf\<close>.\<close>

definition show_int :: "int \<Rightarrow> string" where
  "show_int i = (if i < 0 then ''-'' @ show_nat (nat (- i)) else show_nat (nat i))"

definition show_04d :: "nat \<Rightarrow> string" where
  "show_04d k = replicate (4 - length (show_nat k)) (CHR ''0'') @ show_nat k"

text \<open>\<open>%s\<close> of a slice of strings prints the elements in brackets, separated by
  spaces.\<close>

fun join_space :: "string list \<Rightarrow> string" where
  "join_space [] = []"
| "join_space [x] = x"
| "join_space (x # y # ys) = x @ '' '' @ join_space (y # ys)"

definition show_strings :: "string list \<Rightarrow> string" where
  "show_strings xs = ''['' @ join_space xs @ '']''"

text \<open>\<open>string(ver)\<close> of an \<open>int\<close> is the UTF-8 encoding of the code point \<open>ver\<close>, and the
  replacement character for a value that is no code point.\<close>

definition go_string :: "int \<Rightarrow> string" where
  "go_string v =
     (if v < 0 then [char_of (0xEF::nat), char_of (0xBF::nat), char_of (0xBD::nat)]
      else if 0x10FFFF < v then [char_of (0xEF::nat), char_of (0xBF::nat), char_of (0xBD::nat)]
      else if 0xD800 \<le> v \<and> v \<le> 0xDFFF
      then [char_of (0xEF::nat), char_of (0xBF::nat), char_of (0xBD::nat)]
      else if v < 0x80 then [char_of (nat v)]
      else if v < 0x800 then [char_of (nat (0xC0 + v div 64)), char_of (nat (0x80 + v mod 64))]
      else if v < 0x10000
      then [char_of (nat (0xE0 + v div 4096)), char_of (nat (0x80 + (v div 64) mod 64)),
            char_of (nat (0x80 + v mod 64))]
      else [char_of (nat (0xF0 + v div 262144)), char_of (nat (0x80 + (v div 4096) mod 64)),
            char_of (nat (0x80 + (v div 64) mod 64)), char_of (nat (0x80 + v mod 64))])"

text \<open>\<open>strings.Fields\<close>: the maximal runs of characters that are not white space. A
  character is a byte, so the white space is the white space of ASCII.\<close>

definition isSpace :: "char \<Rightarrow> bool" where
  "isSpace c = (c \<in> set [CHR 0x09, CHR 0x0A, CHR 0x0B, CHR 0x0C, CHR 0x0D, CHR 0x20])"

fun fields_from :: "string \<Rightarrow> string \<Rightarrow> string list" where
  "fields_from cur [] = (if cur = [] then [] else [cur])"
| "fields_from cur (c # cs) =
     (if isSpace c then (if cur = [] then fields_from [] cs else cur # fields_from [] cs)
      else fields_from (cur @ [c]) cs)"

definition strings_Fields :: "string \<Rightarrow> string list" where
  "strings_Fields s = fields_from [] s"

subsection \<open>The main file\<close>

text \<open>\<open>cli.Context\<close>: the positional arguments and the values of the flags, as the
  flag parser hands them over (\<open>flag_version\<close> is 2, \<open>LatestFormatVersion\<close>, when the flag
  is not given).\<close>

record Context =
  args :: "string list"
  flag_key :: string
  flag_output_path :: string
  flag_version :: int
  flag_update :: string
  flag_device_type :: "string list"
  flag_artifact_name :: string
  flag_script :: "string list"
  flag_force :: bool

definition First :: "string list \<Rightarrow> string" where
  "First xs = (case xs of [] \<Rightarrow> [] | x # rest \<Rightarrow> x)"

text \<open>\<open>version\<close> (main file, lines 43-46).\<close>

definition version :: "Context \<Rightarrow> int" where
  "version c = flag_version c"

text \<open>\<open>getKey\<close> (lines 257-269). Reading a directory is the failure of \<open>io.Copy\<close>.\<close>

definition getKey :: "lib \<Rightarrow> path \<Rightarrow> world \<Rightarrow> error + bytes" where
  "getKey L p w =
     (case os_Open p w of
        Inl e \<Rightarrow> Inl (Err (''Invalid key path: '' @ p))
      | Inr Dir \<Rightarrow> Inl (Err (''Error reading key: '' @ p))
      | Inr (File c) \<Rightarrow> Inr (bytes_of L c))"

text \<open>\<open>artifactWriter\<close> (lines 48-62). The signer \<open>artifact.NewSigner(privateKey)\<close> is its
  key.\<close>

definition artifactWriter :: "lib \<Rightarrow> path \<Rightarrow> Context \<Rightarrow> int \<Rightarrow> world \<Rightarrow> error + Writer" where
  "artifactWriter L f c ver w =
     (if length (flag_key c) \<noteq> 0 then
        (if ver = 1 then Inl (Err ''can not use signed artifact with version 1'')
         else case getKey L (flag_key c) w of
                Inl e \<Rightarrow> Inl e
              | Inr privateKey \<Rightarrow> Inr (NewWriterSigned f privateKey))
      else Inr (NewWriter f))"

text \<open>\<open>scripts\<close> (lines 64-90): the loop over the entries of a directory, the loop over
  the arguments, and the function.\<close>

fun add_all :: "lib \<Rightarrow> path list \<Rightarrow> path \<Rightarrow> string list \<Rightarrow> error + path list" where
  "add_all L scr d [] = Inr scr"
| "add_all L scr d (n # ns) =
     (case Scripts_Add L scr (filepath_Join d n) of
        Inl e \<Rightarrow> Inl e
      | Inr scr' \<Rightarrow> add_all L scr' d ns)"

fun scripts_from :: "lib \<Rightarrow> path list \<Rightarrow> string list \<Rightarrow> world \<Rightarrow> error + path list" where
  "scripts_from L scr [] w = Inr scr"
| "scripts_from L scr (scriptArg # rest) w =
     (case os_Stat scriptArg w of
        Inl e \<Rightarrow> Inl (Wrap e (''can not stat script file: '' @ scriptArg))
      | Inr Dir \<Rightarrow>
          (case ioutil_ReadDir scriptArg w of
             Inl e \<Rightarrow> Inl (Wrap e (''can not list directory contents of: '' @ scriptArg))
           | Inr fileList \<Rightarrow>
               (case add_all L scr scriptArg fileList of
                  Inl e \<Rightarrow> Inl e
                | Inr scr' \<Rightarrow> scripts_from L scr' rest w))
      | Inr (File c) \<Rightarrow>
          (case Scripts_Add L scr scriptArg of
             Inl e \<Rightarrow> Inl e
           | Inr scr' \<Rightarrow> scripts_from L scr' rest w))"

definition scripts :: "lib \<Rightarrow> string list \<Rightarrow> world \<Rightarrow> error + path list" where
  "scripts L xs w = scripts_from L [] xs w"

text \<open>\<open>writeArtifact\<close> (lines 92-151) after \<open>os.Create\<close> succeeded, up to its \<open>return\<close>
  (lines 126-150); the deferred \<open>os.Remove(name + ".tmp")\<close> is in \<open>writeArtifact\<close> itself.
  \<open>f.Close()\<close> has no effect here.\<close>

definition writeArtifact_created :: "lib \<Rightarrow> Context \<Rightarrow> string \<Rightarrow> int \<Rightarrow> Rootfs list \<Rightarrow> world \<Rightarrow>
    error option \<times> world" where
  "writeArtifact_created L c name ver upd w =
     (case artifactWriter L (name @ ''.tmp'') c ver w of
        Inl e \<Rightarrow> (Some (ExitError (Error e) 1), w)
      | Inr aw \<Rightarrow>
          (case scripts L (flag_script c) w of
             Inl e \<Rightarrow> (Some (ExitError (Error e) 1), w)
           | Inr scr \<Rightarrow>
               if length scr \<noteq> 0 \<and> ver = 1
               then (Some (ExitError ''can not use scripts artifact with version 1'' 1), w)
               else
                 (case WriteArtifact L aw ''mender'' ver (flag_device_type c)
                         (flag_artifact_name c) upd scr w of
                    (Some e, w1) \<Rightarrow> (Some (ExitError (Error e) 1), w1)
                  | (None, w1) \<Rightarrow>
                      (case os_Rename (name @ ''.tmp'') name w1 of
                         (Some e, w2) \<Rightarrow> (Some (ExitError (Error e) 1), w2)
                       | (None, w2) \<Rightarrow> (None, w2)))))"

text \<open>The name of the output file: \<open>artifact.mender\<close> unless \<open>output-path\<close> is given.\<close>

definition output_name :: "Context \<Rightarrow> string" where
  "output_name c =
     (if length (flag_output_path c) > 0 then flag_output_path c else ''artifact.mender'')"

text \<open>\<open>writeArtifact\<close>: the switch on the version, \<open>os.Create\<close>, the rest, and the deferred
  removal of the temporary file, which runs on every return after \<open>os.Create\<close>.\<close>

definition writeArtifact :: "lib \<Rightarrow> Context \<Rightarrow> world \<Rightarrow> error option \<times> world" where
  "writeArtifact L c w =
     (case (if version c = 1 then Inr (RootfsV1 (flag_update c))
            else if version c = 2 then Inr (RootfsV2 (flag_update c))
            else Inl (ExitError ''unsupported artifact version'' 1)) of
        Inl e \<Rightarrow> (Some e, w)
      | Inr h \<Rightarrow>
          (case os_Create (output_name c @ ''.tmp'') w of
             (Some e, w1) \<Rightarrow> (Some (ExitError ''can not create artifact file'' 1), w1)
           | (None, w1) \<Rightarrow>
               (case writeArtifact_created L c (output_name c) (version c) [h] w1 of
                  (res, w2) \<Rightarrow> (res, snd (os_Remove (output_name c @ ''.tmp'') w2)))))"

text \<open>\<open>read\<close> (lines 153-172); \<open>None\<close> is the \<open>nil\<close> reader or callback.\<close>

definition read :: "lib \<Rightarrow> 's Reader option \<Rightarrow> 's SignatureVerifyFn option \<Rightarrow>
    's ScriptsReadFn option \<Rightarrow> 's \<Rightarrow> (error + 's Reader) \<times> 's" where
  "read L ar verify scriptsFn s =
     (case ar of
        None \<Rightarrow> (Inl (Err ''Can not read artifact file.''), s)
      | Some r \<Rightarrow>
          (let r1 = (case verify of None \<Rightarrow> r | Some v \<Rightarrow> r\<lparr>VerifySignatureCallback := Some v\<rparr>);
               r2 = (case scriptsFn of None \<Rightarrow> r1
                     | Some f \<Rightarrow> r1\<lparr>ScriptsReadCallback := Some f\<rparr>)
           in case ReadArtifact L r2 s of
                (Some e, r3, s') \<Rightarrow> (Inl e, s')
              | (None, r3, s') \<Rightarrow> (Inr r3, s')))"

text \<open>\<open>readArtifact\<close> (lines 174-255). Its closure \<open>ver\<close> assigns \<open>sigInfo\<close> and its closure \<open>readScripts\<close>
  appends to \<open>scripts\<close>: the reader's state is the pair of the two variables. The
  verifier \<open>s.Verify\<close> made from a key is the key itself; no verifier is \<open>None\<close>.\<close>

definition readArtifact_ver :: "bytes option \<Rightarrow> (string \<times> string list) SignatureVerifyFn" where
  "readArtifact_ver verifyCallback message sig s =
     (case verifyCallback of
        None \<Rightarrow>
          (None, (''signed but no key for verification provided; '' @
                  ''please use `-k` option for providing verification key'', snd s))
      | Some key \<Rightarrow>
          (case Verify key message sig of
             Some e \<Rightarrow> (None, (''signed; verification using provided key failed'', snd s))
           | None \<Rightarrow> (None, (''signed and verified correctly'', snd s))))"

definition readArtifact_readScripts :: "(string \<times> string list) ScriptsReadFn" where
  "readArtifact_readScripts r n s = (None, (fst s, snd s @ [n]))"

text \<open>The lines \<open>readArtifact\<close> prints, one \<open>fmt.Printf\<close> each.\<close>

fun print_files :: "lib \<Rightarrow> DataFile list \<Rightarrow> world \<Rightarrow> world" where
  "print_files L [] w = w"
| "print_files L (f # fs) w =
     print_files L fs
       (print (''      checksum: '' @ hex L (Checksum f) @ newline)
         (print (''      modified: '' @ Date f @ newline)
           (print (''      size:     '' @ show_nat (Size f) @ newline)
             (print (''      name:     '' @ Name f @ newline)
               (print (''    Files:'' @ newline) w)))))"

text \<open>The loop over \<open>r.GetHandlers()\<close>, a map from the payload's index to its
  installer, in the order of the indices.\<close>

fun print_updates :: "lib \<Rightarrow> nat \<Rightarrow> (string \<times> DataFile list) list \<Rightarrow> world \<Rightarrow> world" where
  "print_updates L k [] w = w"
| "print_updates L k (p # ps) w =
     print_updates L (Suc k) ps
       (print_files L (snd p)
         (print (''    Type:   '' @ fst p @ newline)
           (print (''  '' @ show_04d k @ '':'' @ newline) w)))"

fun print_scripts :: "string list \<Rightarrow> world \<Rightarrow> world" where
  "print_scripts [] w = w"
| "print_scripts (scr # rest) w = print_scripts rest (print (''    '' @ scr @ newline) w)"

definition describe :: "lib \<Rightarrow> (string \<times> string list) Reader \<Rightarrow> string \<Rightarrow> string list \<Rightarrow> world \<Rightarrow> world" where
  "describe L r sigInfo scr w =
     print_updates L 0 (installers r)
       (print (newline @ ''Updates:'' @ newline)
         (print_scripts scr
           ((if length scr > 0 then print (''  State scripts:'' @ newline) else (\<lambda>x. x))
             (print (''  Compatible devices: '' @ quote @ show_strings (compatible_devices r)
                       @ quote @ newline)
               (print (''  Signature: '' @ sigInfo @ newline)
                 (print (''  Version: '' @ show_int (Version (info r)) @ newline)
                   (print (''  Format: '' @ Format (info r) @ newline)
                     (print (''  Name: '' @ artifact_name r @ newline)
                       (print (''Mender artifact:'' @ newline) w)))))))))"

definition readArtifact :: "lib \<Rightarrow> Context \<Rightarrow> world \<Rightarrow> error option \<times> world" where
  "readArtifact L c w =
     (if length (args c) = 0
      then (Some (ExitError (''Nothing specified, nothing read. '' @ newline @
                ''Maybe you wanted to say '' @ quote @ ''artifacts read <pathspec>'' @ quote
                @ ''?'') 1), w)
      else case os_Open (First (args c)) w of
        Inl e \<Rightarrow>
          (Some (ExitError (''Can not open '' @ quote @ First (args c) @ quote @ '' file.'') 1), w)
      | Inr f \<Rightarrow>
          (case (if length (flag_key c) \<noteq> 0
                 then (case getKey L (flag_key c) w of
                         Inl e \<Rightarrow> Inl (ExitError (Error e) 1)
                       | Inr key \<Rightarrow> Inr (Some key))
                 else Inr None) of
             Inl e \<Rightarrow> (Some e, w)
           | Inr verifyCallback \<Rightarrow>
               (case read L (Some (NewReader f)) (Some (readArtifact_ver verifyCallback))
                       (Some readArtifact_readScripts) (''no signature'', []) of
                  (Inl e, s) \<Rightarrow> (Some (ExitError (Error e) 1), w)
                | (Inr r, s) \<Rightarrow> (None, describe L r (fst s) (snd s) w))))"

text \<open>\<open>checkIfValid\<close> of the main file (lines 271-313). Its closure \<open>ver\<close> assigns
  \<open>valid\<close>.\<close>

definition checkIfValid_ver :: "bytes option \<Rightarrow> bool SignatureVerifyFn" where
  "checkIfValid_ver verifyCallback message sig valid =
     (case verifyCallback of
        None \<Rightarrow> (None, valid)
      | Some key \<Rightarrow>
          (case Verify key message sig of
             Some e \<Rightarrow> (None, False)
           | None \<Rightarrow> (None, valid)))"

definition checkIfValid :: "lib \<Rightarrow> path \<Rightarrow> path \<Rightarrow> world \<Rightarrow> error option" where
  "checkIfValid L artifactPath keyPath w =
     (case (if keyPath \<noteq> []
            then (case getKey L keyPath w of Inl e \<Rightarrow> Inl e | Inr key \<Rightarrow> Inr (Some key))
            else Inr None) of
        Inl e \<Rightarrow> Some e
      | Inr verifyCallback \<Rightarrow>
          (case os_Open artifactPath w of
             Inl e \<Rightarrow> Some e
           | Inr f \<Rightarrow>
               (case read L (Some (NewReader f)) (Some (checkIfValid_ver verifyCallback)) None
                       True of
                  (Inl e, valid) \<Rightarrow> Some e
                | (Inr r, valid) \<Rightarrow>
                    if \<not> valid
                    then Some (Err (''Artifact file '' @ quote @ artifactPath @ quote @
                            '' formatted correctly, but error validating signature.''))
                    else None)))"

text \<open>\<open>validateArtifact\<close> of the main file (lines 315-327).\<close>

definition validateArtifact :: "lib \<Rightarrow> Context \<Rightarrow> world \<Rightarrow> error option \<times> world" where
  "validateArtifact L c w =
     (if length (args c) = 0
      then (Some (ExitError (''Nothing specified, nothing validated. '' @ newline @
                ''Maybe you wanted to say '' @ quote @ ''artifacts validate <pathspec>'' @ quote
                @ ''?'') 1), w)
      else case checkIfValid L (First (args c)) (flag_key c) w of
             Some e \<Rightarrow> (Some (ExitError (Error e) 1), w)
           | None \<Rightarrow>
               (None, print (''Artifact file '' @ quote @ First (args c) @ quote @
                             '' validated successfully'' @ newline) w))"

text \<open>\<open>repack\<close> (lines 429-517). Its closures \<open>storeScripts\<close> and the install handler write files, so the
  reader's state is the world. \<open>repack\<close> returns \<open>(nil, err)\<close>, here \<open>Inl err\<close>, or the
  reader with the writer's result, here \<open>Inr (ar, err)\<close>. \<open>io.Copy\<close> onto a file that was
  just created does not fail here.\<close>

definition storeScripts :: "lib \<Rightarrow> path \<Rightarrow> world ScriptsReadFn" where
  "storeScripts L sDir r n w =
     (case os_OpenFile_excl (filepath_Join sDir n) w of
        (Some e, w1) \<Rightarrow>
          (Some (Wrap e (''can not create script file: '' @ filepath_Join sDir n)), w1)
      | (None, w1) \<Rightarrow> (None, io_Copy L (filepath_Join sDir n) r w1))"

definition repack_verify :: "world SignatureVerifyFn" where
  "repack_verify message sig w = (None, w)"

definition repack_install :: "lib \<Rightarrow> path \<Rightarrow> world InstallFn" where
  "repack_install L tmpData r df w = (None, io_Copy L tmpData r w)"

text \<open>\<open>repack\<close> from its call of \<open>read\<close> to its \<open>return\<close>: \<open>ar\<close> is the reader, with the
  install handler when the payload is staged, and \<open>data\<close> is the file the payload is
  taken from.\<close>

definition repack_recompose :: "lib \<Rightarrow> world Reader \<Rightarrow> path \<Rightarrow> bytes option \<Rightarrow> string \<Rightarrow> path \<Rightarrow>
    path \<Rightarrow> world \<Rightarrow> (error + world Reader \<times> error option) \<times> world" where
  "repack_recompose L ar to key newName data sDir w =
     (case read L (Some ar) (Some repack_verify) (Some (storeScripts L sDir)) w of
        (Inl e, w2) \<Rightarrow> (Inl e, w2)
      | (Inr r, w2) \<Rightarrow>
          (case (if Version (info r) = 1 then Inr (RootfsV1 data)
                 else if Version (info r) = 2 then Inr (RootfsV2 data)
                 else Inl (Err (''unsupported artifact version: '' @
                             show_int (Version (info r))))) of
             Inl e \<Rightarrow> (Inl e, w2)
           | Inr h \<Rightarrow>
               (case scripts L [sDir] w2 of
                  Inl e \<Rightarrow> (Inl e, w2)
                | Inr scr \<Rightarrow>
                    (case WriteArtifact L
                            (case key of None \<Rightarrow> NewWriter to
                             | Some k \<Rightarrow> NewWriterSigned to k)
                            (Format (info r)) (Version (info r)) (compatible_devices r)
                            (if newName \<noteq> [] then newName else artifact_name r)
                            [h] scr w2 of
                       (e, w3) \<Rightarrow> (Inr (r, e), w3)))))"

text \<open>\<open>repack\<close> after \<open>ioutil.TempDir\<close> succeeded; the deferred \<open>os.Remove(sDir)\<close> is in
  \<open>repack\<close> itself.\<close>

definition repack_staged :: "lib \<Rightarrow> node \<Rightarrow> path \<Rightarrow> bytes option \<Rightarrow> string \<Rightarrow> string \<Rightarrow> path \<Rightarrow>
    world \<Rightarrow> (error + world Reader \<times> error option) \<times> world" where
  "repack_staged L from to key newName dataFile sDir w =
     (if dataFile = []
      then (case ioutil_TempFile ''mender'' w of
              (Inl e, w1) \<Rightarrow> (Inl e, w1)
            | (Inr tmpData, w1) \<Rightarrow>
                repack_recompose L (RegisterHandler (repack_install L tmpData) (NewReader from))
                  to key newName tmpData sDir w1)
      else repack_recompose L (NewReader from) to key newName dataFile sDir w)"

text \<open>\<open>repack\<close>: \<open>ioutil.TempDir\<close>, the rest, and the deferred \<open>os.Remove(sDir)\<close>.\<close>

definition repack :: "lib \<Rightarrow> node \<Rightarrow> path \<Rightarrow> bytes option \<Rightarrow> string \<Rightarrow> string \<Rightarrow> world \<Rightarrow>
    (error + world Reader \<times> error option) \<times> world" where
  "repack L from to key newName dataFile w =
     (case ioutil_TempDir ''mender'' w of
        (Inl e, w1) \<Rightarrow> (Inl e, w1)
      | (Inr sDir, w1) \<Rightarrow>
          (case repack_staged L from to key newName dataFile sDir w1 of
             (res, w2) \<Rightarrow> (res, snd (os_Remove sDir w2))))"

text \<open>The name \<open>signExisting\<close> stores the signed artifact under: the artifact's own path
  unless \<open>output-path\<close> is given.\<close>

definition sign_target :: "Context \<Rightarrow> path" where
  "sign_target c =
     (if length (flag_output_path c) > 0 then flag_output_path c else First (args c))"

text \<open>\<open>signExisting\<close> (lines 329-390) after \<open>ioutil.TempFile\<close> succeeded, up to its
  \<open>return\<close> (lines 352-389); the deferred \<open>os.Remove(tFile.Name())\<close> is in \<open>signExisting\<close>
  itself. \<open>tFile.Close()\<close> does not fail here.\<close>

definition signExisting_created :: "lib \<Rightarrow> Context \<Rightarrow> bytes \<Rightarrow> path \<Rightarrow> world \<Rightarrow> error option \<times> world" where
  "signExisting_created L c privateKey tFile w =
     (case os_Open (First (args c)) w of
        Inl e \<Rightarrow> (Some (Wrap e (''Can not open: '' @ First (args c))), w)
      | Inr f \<Rightarrow>
          (case repack L f tFile (Some privateKey) [] [] w of
             (Inl e, w1) \<Rightarrow> (Some e, w1)
           | (Inr (reader, Some e), w1) \<Rightarrow> (Some e, w1)
           | (Inr (reader, None), w1) \<Rightarrow>
               if Version (info reader) = 1 then (Some (ExitError ''Can not sign v1 artifact'' 1), w1)
               else if Version (info reader) = 2 then
                 (if IsSigned reader \<and> \<not> flag_force c
                  then (Some (ExitError (''Trying to sign already signed artifact; '' @
                                ''please use force option'') 1), w1)
                  else
                    (case os_Rename tFile (sign_target c) w1 of
                       (Some e, w2) \<Rightarrow>
                         (Some (ExitError (''Can not store signed artifact: '' @ Error e) 1),
                          snd (os_Remove tFile w2))
                     | (None, w2) \<Rightarrow> (None, w2)))
               else (Some (ExitError (''Unsupported version of artifact file: '' @
                              go_string (Version (info reader))) 1), w1)))"

text \<open>\<open>signExisting\<close>: the checks of the arguments, the key, \<open>ioutil.TempFile\<close>, the rest,
  and the deferred removal of the temporary file.\<close>

definition signExisting :: "lib \<Rightarrow> Context \<Rightarrow> world \<Rightarrow> error option \<times> world" where
  "signExisting L c w =
     (if length (args c) = 0
      then (Some (ExitError (''Nothing specified, nothing signed. '' @ newline @
                ''Maybe you wanted to say '' @ quote @ ''artifacts sign <pathspec>'' @ quote
                @ ''?'') 1), w)
      else if length (flag_key c) = 0
      then (Some (ExitError (''Missing signing key; '' @
                ''please use `-k` parameter for providing one'') 1), w)
      else case getKey L (flag_key c) w of
        Inl e \<Rightarrow> (Some (ExitError (''Can not use signing key provided: '' @ Error e) 1), w)
      | Inr privateKey \<Rightarrow>
          (case ioutil_TempFile ''mender-artifact'' w of
             (Inl e, w1) \<Rightarrow>
               (Some (Wrap e ''Can not create temporary file for storing artifact''), w1)
           | (Inr tFile, w1) \<Rightarrow>
               (case signExisting_created L c privateKey tFile w1 of
                  (res, w2) \<Rightarrow> (res, snd (os_Remove tFile w2)))))"

text \<open>\<open>repackArtifact\<close> (lines 559-582). It passes \<open>rootfs\<close> and \<open>newName\<close> to \<open>repack\<close> in this order, and
  \<open>repack\<close> takes them as \<open>newName\<close> and \<open>dataFile\<close>.\<close>

definition repackArtifact :: "lib \<Rightarrow> path \<Rightarrow> path \<Rightarrow> path \<Rightarrow> string \<Rightarrow> world \<Rightarrow> error option \<times> world" where
  "repackArtifact L artifact rootfs key newName w =
     (case os_Open artifact w of
        Inl e \<Rightarrow> (Some e, w)
      | Inr art \<Rightarrow>
          (case ioutil_TempFile ''mender-artifact'' w of
             (Inl e, w1) \<Rightarrow> (Some e, w1)
           | (Inr tmp, w1) \<Rightarrow>
               (case (if key \<noteq> []
                      then (case getKey L key w1 of
                              Inl e \<Rightarrow>
                                Inl (ExitError (''Can not use signing key provided: '' @ Error e) 1)
                            | Inr k \<Rightarrow> Inr (Some k))
                      else Inr None) of
                  Inl e \<Rightarrow> (Some e, w1)
                | Inr privateKey \<Rightarrow>
                    (case repack L art tmp privateKey rootfs newName w1 of
                       (Inl e, w2) \<Rightarrow> (Some e, w2)
                     | (Inr (r, e), w2) \<Rightarrow> (e, w2)))))"

text \<open>The action of the command \<open>write rootfs-image\<close> (lines 660-670).\<close>

definition writeRootfs :: "lib \<Rightarrow> Context \<Rightarrow> world \<Rightarrow> error option \<times> world" where
  "writeRootfs L c w =
     (if length (flag_device_type c) = 0 \<or> length (flag_artifact_name c) = 0 \<or>
         length (flag_update c) = 0
      then (Some (ExitError ''must provide `device-type`, `artifact-name` and `update`'' 1), w)
      else if length (strings_Fields (flag_artifact_name c)) > 1
      then (Some (ExitError ''whitespace is not allowed in the artifact-name'' 1), w)
      else writeArtifact L c w)"

subsection \<open>cli/mender-artifact/validate.go\<close>

text \<open>\<open>validate\<close> (lines 29-62). Its closure \<open>verify\<close> assigns \<open>validationError\<close> and prints a line when
  a key was given: the reader's state is the variable and the world.\<close>

definition validate_verify :: "bytes option \<Rightarrow> (error option \<times> world) SignatureVerifyFn" where
  "validate_verify key message sig s =
     (case key of
        None \<Rightarrow>
          (None, (Some (Err ''artifact is signed but no verification key was provided''), snd s))
      | Some k \<Rightarrow>
          (case Verify k message sig of
             Some e \<Rightarrow> (None, (Some e, print (''have some privete key'' @ newline) (snd s)))
           | None \<Rightarrow> (None, (fst s, print (''have some privete key'' @ newline) (snd s)))))"

definition validate :: "lib \<Rightarrow> node \<Rightarrow> bytes option \<Rightarrow> world \<Rightarrow> error option \<times> world" where
  "validate L art key w =
     (case ReadArtifact L ((NewReader art)\<lparr>VerifySignatureCallback := Some (validate_verify key)\<rparr>)
             (None, w) of
        (Some e, ar, s) \<Rightarrow> (Some e, snd s)
      | (None, ar, s) \<Rightarrow>
          (case fst s of
             Some validationError \<Rightarrow>
               (Some (Wrap validationError
                  ''artifact file formatted correctly, but error validating signature''), snd s)
           | None \<Rightarrow> (None, snd s)))"

text \<open>\<open>checkIfValid\<close> of validate.go (lines 89-132), which returns an \<open>*artifactError\<close>. It calls the
  \<open>read\<close> of its package, taken to be the \<open>read\<close> of the main file.\<close>

record artifactError =
  err :: error
  badSignature :: bool

definition checkIfValid_ver2 :: "bytes option \<Rightarrow> (error option) SignatureVerifyFn" where
  "checkIfValid_ver2 key message sig validationError =
     (case (case key of
              None \<Rightarrow> Some (Err ''artifact is signed but no verification key was provided'')
            | Some k \<Rightarrow> Verify k message sig) of
        Some e \<Rightarrow> (None, Some e)
      | None \<Rightarrow> (None, validationError))"

definition checkIfValid2 :: "lib \<Rightarrow> path \<Rightarrow> bytes option \<Rightarrow> world \<Rightarrow> artifactError option" where
  "checkIfValid2 L artifactPath key w =
     (case os_Open artifactPath w of
        Inl e \<Rightarrow> Some \<lparr>err = e, badSignature = False\<rparr>
      | Inr f \<Rightarrow>
          (case read L (Some (NewReader f)) (Some (checkIfValid_ver2 key)) None None of
             (Inl e, s) \<Rightarrow> Some \<lparr>err = e, badSignature = False\<rparr>
           | (Inr r, s) \<Rightarrow>
               (case s of
                  Some validationError \<Rightarrow>
                    Some \<lparr>err = Err (''artifact file '' @ quote @ artifactPath @ quote @
                                 '' formatted correctly, but error validating signature: '' @
                                 Error validationError),
                          badSignature = True\<rparr>
                | None \<Rightarrow> None)))"

subsection \<open>Notions the properties are stated with\<close>

text \<open>The structural result of reading a file as an artifact: what \<open>ReadArtifact\<close>
  returns when every signature is accepted and no callback is registered.\<close>

definition "structure" :: "lib \<Rightarrow> node \<Rightarrow> error option" where
  "structure L n =
     fst (ReadArtifact L ((NewReader n)\<lparr>VerifySignatureCallback := Some (\<lambda>m sg s. (None, s))\<rparr>) ())"

text \<open>The result of verifying the signature an artifact carries with the key \<open>k\<close>.\<close>

definition signature_check :: "bytes \<Rightarrow> node \<Rightarrow> error option" where
  "signature_check k n =
     (case n of
        File (Archive c) \<Rightarrow>
          (case containerSignature c of Some sg \<Rightarrow> Verify k (manifest_of c) sg | None \<Rightarrow> None)
      | File (Data b) \<Rightarrow> None
      | Dir \<Rightarrow> None)"

text \<open>The errors of the reader that say the container is corrupt.\<close>

fun structural :: "error \<Rightarrow> bool" where
  "structural FormatError = True"
| "structural (ChecksumMismatch f) = True"
| "structural (UnsupportedPayloadType t) = True"
| "structural (InvalidScriptName n) = True"
| "structural e = False"


subsection \<open>Example inputs\<close>

definition example_lib :: lib where
  "example_lib =
     \<lparr>writer_accepts = (\<lambda>sg f v d n scr. True), valid_script = (\<lambda>n. True),
      mtime = (\<lambda>p. ''2018-01-01''), raw = (\<lambda>c. []), hex = (\<lambda>c. ''sha256''),
      partial = [0]\<rparr>"

definition example_payload :: Payload where
  "example_payload =
     \<lparr>typeTag = ''rootfs-image'',
      payloadFiles =
        [(\<lparr>Name = ''rootfs.ext4'', Size = 2, Date = ''2018-01-01'', Checksum = Digest [7, 8]\<rparr>,
          [7, 8])]\<rparr>"

text \<open>A version-2 artifact with one script, signed with the key \<open>[1]\<close>; a version-1
  artifact; and a version-2 artifact whose payload does not match its checksum.\<close>

definition signed_artifact :: Container where
  "signed_artifact =
     assemble (Some [1]) ''mender'' 2 [''qemux86-64''] ''release-1'' [example_payload]
       [(''ArtifactInstall_Enter_10'', [5])]"

definition v1_artifact :: Container where
  "v1_artifact = assemble None ''mender'' 1 [''qemux86-64''] ''release-0'' [example_payload] []"

definition corrupt_artifact :: Container where
  "corrupt_artifact =
     assemble None ''mender'' 2 [''qemux86-64''] ''release-2''
       [\<lparr>typeTag = ''rootfs-image'',
         payloadFiles =
           [(\<lparr>Name = ''rootfs.ext4'', Size = 2, Date = ''2018-01-01'', Checksum = Digest [0, 0]\<rparr>,
             [7, 8])]\<rparr>] []"

definition example_world :: world where
  "example_world =
     \<lparr>files =
        [(''signed.mender'', File (Archive signed_artifact)),
         (''old.mender'', File (Archive v1_artifact)),
         (''corrupt.mender'', File (Archive corrupt_artifact)),
         (''key1'', File (Data [1])),
         (''key2'', File (Data [2])),
         (''new.ext4'', File (Data [9, 9, 9])),
         (''ArtifactCommit_Enter_05'', File (Data [3]))],
      tmp_names = [''001'', ''002'', ''003''], stdout = [], emitted = []\<rparr>"

definition example_context :: Context where
  "example_context =
     \<lparr>args = [''signed.mender''], flag_key = ''key2'', flag_output_path = [], flag_version = 2,
      flag_update = ''new.ext4'', flag_device_type = [''qemux86-64''],
      flag_artifact_name = ''release-3'', flag_script = [], flag_force = False\<rparr>"

section \<open>Properties\<close>

subsection \<open>The file system\<close>

lemma node_at_put [simp]: "node_at (put p n w) q = (if q = p then Some n else node_at w q)"
  by (simp add: node_at_def put_def update_conv')

lemma node_at_unlink [simp]: "node_at (unlink p w) q = (if q = p then None else node_at w q)"
  by (simp add: node_at_def unlink_def delete_conv')

lemma node_at_fields [simp]:
  "node_at (w\<lparr>tmp_names := t\<rparr>) = node_at w"
  "node_at (w\<lparr>emitted := e\<rparr>) = node_at w"
  "node_at (w\<lparr>stdout := s\<rparr>) = node_at w"
  by (simp_all add: node_at_def fun_eq_iff)

lemma put_fields [simp]:
  "emitted (put p n w) = emitted w" "stdout (put p n w) = stdout w" "tmp_names (put p n w) = tmp_names w"
  "emitted (unlink p w) = emitted w" "stdout (unlink p w) = stdout w" "tmp_names (unlink p w) = tmp_names w"
  by (simp_all add: put_def unlink_def)









subsection \<open>The reader\<close>

lemma readFiles_None: "readFiles None fs s = (fst (readFiles None fs ()), s)"
  by (induction fs) auto

lemma readPayloads_None: "readPayloads None ps s = (fst (readPayloads None ps ()), s)"
proof (induction ps)
  case Nil
  show ?case by simp
next
  case (Cons p ps)
  obtain e where e: "readFiles None (payloadFiles p) () = (e, ())"
    by (cases "readFiles None (payloadFiles p) ()") auto
  with readFiles_None[of "payloadFiles p" s] have "readFiles None (payloadFiles p) s = (e, s)"
    by simp
  with e Cons show ?case by (cases e) auto
qed

lemma readScripts_None: "readScripts L None xs s = (fst (readScripts L None xs ()), s)"
  by (induction xs) auto

lemma readScripts_quiet:
  assumes "\<And>r n s. fst (cb r n s) = None"
  shows "fst (readScripts L (Some cb) xs s) = fst (readScripts L None xs ())"
proof (induction xs arbitrary: s)
  case Nil
  show ?case by simp
next
  case (Cons x xs)
  obtain s' where "cb (snd x) (fst x) s = (None, s')"
    using assms[of "snd x" "fst x" s] by (cases "cb (snd x) (fst x) s") auto
  with Cons show ?case by simp
qed

lemma ReadArtifact_ok:
  assumes "ReadArtifact L ar s = (None, r, s')"
  shows "\<exists>c. input ar = File (Archive c) \<and> (formatVersion c = 1 \<or> formatVersion c = 2) \<and>
             info r = \<lparr>Format = formatName c, Version = formatVersion c\<rparr> \<and>
             IsSigned r = (IsSigned ar \<or> containerSignature c \<noteq> None) \<and>
             artifact_name r = artifactName c \<and> compatible_devices r = deviceTypes c \<and>
             installers r = map (\<lambda>p. (typeTag p, map fst (payloadFiles p))) (updates c) \<and>
             state r = Done"
proof -
  from assms obtain c ar1 where rv: "readVersion ar = Inr (c, ar1)"
    by (auto simp: ReadArtifact_def split: sum.splits)
  then have c: "input ar = File (Archive c)" "formatVersion c = 1 \<or> formatVersion c = 2"
    and ar1: "ar1 = ar\<lparr>info := \<lparr>Format = formatName c, Version = formatVersion c\<rparr>, state := AwaitingHeader\<rparr>"
    by (auto simp: readVersion_def split: node.splits content.splits if_splits)
  from assms rv obtain ar2 s2 where rh: "readHeader c ar1 s = (None, ar2, s2)" and r: "r = ar2\<lparr>state := Done\<rparr>"
    by (auto simp: ReadArtifact_def split: sum.splits prod.splits option.splits)
  from rh have "info ar2 = info ar1 \<and> IsSigned ar2 = (IsSigned ar1 \<or> containerSignature c \<noteq> None) \<and>
      artifact_name ar2 = artifactName c \<and> compatible_devices ar2 = deviceTypes c \<and>
      installers ar2 = map (\<lambda>p. (typeTag p, map fst (payloadFiles p))) (updates c)"
    by (auto simp: readHeader_def Let_def split: if_splits option.splits prod.splits)
  with c ar1 r show ?thesis by simp
qed

lemma ReadArtifact_quiet:
  fixes s :: "'s"
  assumes v: "\<And>m sg s. fst (v m sg s) = None"
    and ar: "ar = (NewReader n)\<lparr>VerifySignatureCallback := Some v\<rparr>"
  shows "fst (ReadArtifact L ar s) = structure L n"
    and "structure L n = None \<Longrightarrow>
         state (fst (snd (ReadArtifact L ar s))) = Done \<and>
         snd (snd (ReadArtifact L ar s)) =
           (case n of
              File (Archive c) \<Rightarrow>
                (case containerSignature c of Some sg \<Rightarrow> snd (v (manifest_of c) sg s) | None \<Rightarrow> s)
            | File (Data b) \<Rightarrow> s
            | Dir \<Rightarrow> s)"
proof -
  have A: "fst (ReadArtifact L ar s) = structure L n \<and>
     (structure L n = None \<longrightarrow>
         state (fst (snd (ReadArtifact L ar s))) = Done \<and>
         snd (snd (ReadArtifact L ar s)) =
           (case n of
              File (Archive c) \<Rightarrow>
                (case containerSignature c of Some sg \<Rightarrow> snd (v (manifest_of c) sg s) | None \<Rightarrow> s)
            | File (Data b) \<Rightarrow> s
            | Dir \<Rightarrow> s))"
  proof (cases n)
    case Dir
    then show ?thesis by (simp add: ar structure_def ReadArtifact_def readVersion_def NewReader_def)
  next
    case (File x)
    show ?thesis
    proof (cases x)
      case (Data b)
      with File show ?thesis by (simp add: ar structure_def ReadArtifact_def readVersion_def NewReader_def)
    next
      case (Archive c)
      show ?thesis
      proof (cases "formatVersion c = 1 \<or> formatVersion c = 2")
        case False
        with File Archive show ?thesis
          by (simp add: ar structure_def ReadArtifact_def readVersion_def NewReader_def)
      next
        case True
        note ver = this
        define e1 where "e1 = fst (readPayloads None (updates c) ())"
        define e2 where "e2 = fst (readScripts L None (containerScripts c) ())"
        have p: "readPayloads None (updates c) t = (e1, t)" for t :: 's
          unfolding e1_def by (rule readPayloads_None)
        have pu: "readPayloads None (updates c) () = (e1, ())"
          unfolding e1_def by (rule readPayloads_None)
        have q: "readScripts L None (containerScripts c) t = (e2, t)" for t :: 's
          unfolding e2_def by (rule readScripts_None)
        have qu: "readScripts L None (containerScripts c) () = (e2, ())"
          unfolding e2_def by (rule readScripts_None)
        show ?thesis
        proof (cases "containerSignature c")
          case None
          with File Archive ver p pu q qu show ?thesis
            by (cases e1; cases e2)
               (auto simp: ar structure_def ReadArtifact_def readVersion_def readHeader_def NewReader_def Let_def)
        next
          case (Some sg)
          obtain s1 where v1: "v (manifest_of c) sg s = (None, s1)"
            using v[of "manifest_of c" sg s] by (cases "v (manifest_of c) sg s") auto
          with Some File Archive ver p pu q qu show ?thesis
            by (cases e1; cases e2)
               (auto simp: ar structure_def ReadArtifact_def readVersion_def readHeader_def NewReader_def Let_def)
        qed
      qed
    qed
  qed
  from A show "fst (ReadArtifact L ar s) = structure L n" by simp
  from A show "structure L n = None \<Longrightarrow>
         state (fst (snd (ReadArtifact L ar s))) = Done \<and>
         snd (snd (ReadArtifact L ar s)) =
           (case n of
              File (Archive c) \<Rightarrow>
                (case containerSignature c of Some sg \<Rightarrow> snd (v (manifest_of c) sg s) | None \<Rightarrow> s)
            | File (Data b) \<Rightarrow> s
            | Dir \<Rightarrow> s)" by simp
qed

lemma readFiles_structural: "fst (readFiles None fs s) = Some e \<Longrightarrow> structural e"
  by (induction fs) (auto split: if_splits)

lemma readPayloads_structural: "fst (readPayloads None ps s) = Some e \<Longrightarrow> structural e"
proof (induction ps)
  case Nil
  then show ?case by simp
next
  case (Cons p ps)
  obtain x where x: "readFiles None (payloadFiles p) s = (x, s)"
    using readFiles_None[of "payloadFiles p" s] by simp
  show ?case
  proof (cases x)
    case None
    with x Cons show ?thesis by (auto split: if_splits)
  next
    case (Some e')
    with x readFiles_structural[of "payloadFiles p" s e'] have "structural e'" by simp
    with x Some Cons.prems show ?thesis by (auto split: if_splits)
  qed
qed

lemma readScripts_structural: "fst (readScripts L None xs s) = Some e \<Longrightarrow> structural e"
  by (induction xs) (auto split: if_splits)

lemma structure_structural:
  assumes "structure L n = Some e"
  shows "structural e"
proof -
  let ?ar = "(NewReader n)\<lparr>VerifySignatureCallback := Some (\<lambda>m sg s. (None, s))\<rparr> :: unit Reader"
  from assms have ra: "fst (ReadArtifact L ?ar ()) = Some e" by (simp add: structure_def)
  show ?thesis
  proof (cases "readVersion ?ar")
    case (Inl e1)
    then have "e1 = FormatError"
      by (auto simp: readVersion_def split: node.splits content.splits if_splits)
    with ra Inl show ?thesis by (simp add: ReadArtifact_def)
  next
    case (Inr x)
    obtain c ar1 where x: "x = (c, ar1)" by (cases x)
    obtain eh ar2 where rh: "readHeader c ar1 () = (eh, ar2, ())"
      by (cases "readHeader c ar1 ()") auto
    from Inr x have "VerifySignatureCallback ar1 = Some (\<lambda>m sg s. (None, s))"
      by (auto simp: readVersion_def NewReader_def split: node.splits content.splits if_splits)
    with rh have eh: "eh = None \<or> eh = Some FormatError"
      by (auto simp: readHeader_def Let_def split: if_splits option.splits)
    obtain ep where rp: "readPayloads (InstallHandler ?ar) (updates c) () = (ep, ())"
      by (cases "readPayloads (InstallHandler ?ar) (updates c) ()") auto
    obtain es where rs: "readScripts L (ScriptsReadCallback ?ar) (containerScripts c) () = (es, ())"
      by (cases "readScripts L (ScriptsReadCallback ?ar) (containerScripts c) ()") auto
    have ih: "InstallHandler ?ar = None" "ScriptsReadCallback ?ar = None"
      by (simp_all add: NewReader_def)
    from rp ih readPayloads_structural[of "updates c" "()"] have sp: "ep = Some e \<Longrightarrow> structural e"
      by simp
    from rs ih readScripts_structural[of L "containerScripts c" "()"] have ss: "es = Some e \<Longrightarrow> structural e"
      by simp
    from ra Inr x rh rp rs eh sp ss show ?thesis
      by (cases ep; cases es) (auto simp: ReadArtifact_def)
  qed
qed

lemma validate_verify_quiet: "fst (validate_verify key m sg s) = None"
  by (simp add: validate_verify_def split: option.splits)

lemma checkIfValid_ver_quiet: "fst (checkIfValid_ver vc m sg s) = None"
  by (simp add: checkIfValid_ver_def split: option.splits)

lemma checkIfValid_ver2_quiet: "fst (checkIfValid_ver2 key m sg s) = None"
  by (simp add: checkIfValid_ver2_def split: option.splits)

lemma signature_check_SomeD:
  "signature_check k n = Some e \<Longrightarrow>
   \<exists>c sg. n = File (Archive c) \<and> containerSignature c = Some sg \<and> Verify k (manifest_of c) sg = Some e"
  by (auto simp: signature_check_def split: node.splits content.splits option.splits)

text \<open>How a caller that only captures the verification result sees the reader.\<close>

lemma read_quiet:
  fixes s :: "'s"
  assumes v: "\<And>m sg s. fst (v m sg s) = None"
  shows "structure L n = Some e \<Longrightarrow> \<exists>s'. read L (Some (NewReader n)) (Some v) None s = (Inl e, s')"
    and "structure L n = None \<Longrightarrow>
         \<exists>r. read L (Some (NewReader n)) (Some v) None s =
           (Inr r,
            (case n of
               File (Archive c) \<Rightarrow>
                 (case containerSignature c of Some sg \<Rightarrow> snd (v (manifest_of c) sg s) | None \<Rightarrow> s)
             | File (Data b) \<Rightarrow> s
             | Dir \<Rightarrow> s))"
proof -
  let ?ar = "(NewReader n)\<lparr>VerifySignatureCallback := Some v\<rparr>"
  obtain x r s' where ra: "ReadArtifact L ?ar s = (x, r, s')" by (cases "ReadArtifact L ?ar s") auto
  from ReadArtifact_quiet(1)[of v ?ar n L s] v ra have x: "x = structure L n" by simp
  show "structure L n = Some e \<Longrightarrow> \<exists>s'. read L (Some (NewReader n)) (Some v) None s = (Inl e, s')"
    using x ra by (simp add: read_def)
  show "structure L n = None \<Longrightarrow>
         \<exists>r. read L (Some (NewReader n)) (Some v) None s =
           (Inr r,
            (case n of
               File (Archive c) \<Rightarrow>
                 (case containerSignature c of Some sg \<Rightarrow> snd (v (manifest_of c) sg s) | None \<Rightarrow> s)
             | File (Data b) \<Rightarrow> s
             | Dir \<Rightarrow> s))"
    using ReadArtifact_quiet(2)[of v ?ar n L s] v ra x by (simp add: read_def)
qed

text \<open>
  Claim C1. Take an artifact file and a verification key. When reading fails
  structurally, \<open>validate\<close> and both \<open>checkIfValid\<close> return that structural error, whatever
  the signature is. When the structure is sound and the signature does not verify, the
  reader has reached \<open>Done\<close>, and each of them returns its own signature error: the
  wrapped error of \<open>validate\<close>, the \<open>badSignature\<close> record of validate.go, the "formatted
  correctly, but error validating signature" message of the main file. None of these is
  a structural error, so a caller can tell the two classes apart. When both are sound,
  all three return no error.
\<close>

theorem C1_signature_error_is_distinct:
  assumes art: "os_Open p w = Inr art"
    and kp: "kp \<noteq> []" "getKey L kp w = Inr k"
  shows "case structure L art of
           Some e \<Rightarrow>
             structural e \<and>
             fst (validate L art (Some k) w) = Some e \<and>
             checkIfValid2 L p (Some k) w = Some \<lparr>err = e, badSignature = False\<rparr> \<and>
             checkIfValid L p kp w = Some e
         | None \<Rightarrow>
             state (fst (snd (ReadArtifact L
               ((NewReader art)\<lparr>VerifySignatureCallback := Some (validate_verify (Some k))\<rparr>)
               (None, w)))) = Done \<and>
             (case signature_check k art of
                Some e \<Rightarrow>
                  fst (validate L art (Some k) w) =
                    Some (Wrap e
                      ''artifact file formatted correctly, but error validating signature'') \<and>
                  checkIfValid2 L p (Some k) w =
                    Some \<lparr>err = Err (''artifact file '' @ quote @ p @ quote @
                                 '' formatted correctly, but error validating signature: '' @
                                 Error e),
                          badSignature = True\<rparr> \<and>
                  checkIfValid L p kp w =
                    Some (Err (''Artifact file '' @ quote @ p @ quote @
                            '' formatted correctly, but error validating signature.''))
              | None \<Rightarrow>
                  fst (validate L art (Some k) w) = None \<and>
                  checkIfValid2 L p (Some k) w = None \<and>
                  checkIfValid L p kp w = None)"
proof (cases "structure L art")
  case (Some e)
  let ?ar = "(NewReader art)\<lparr>VerifySignatureCallback := Some (validate_verify (Some k))\<rparr>"
  obtain x r s' where ra: "ReadArtifact L ?ar (None, w) = (x, r, s')"
    by (cases "ReadArtifact L ?ar (None, w)") auto
  from ReadArtifact_quiet(1)[of "validate_verify (Some k)" ?ar art L "(None, w)"] ra Some
  have "x = Some e" by (simp add: validate_verify_quiet)
  with ra have v: "fst (validate L art (Some k) w) = Some e" by (simp add: validate_def)
  have c2: "checkIfValid2 L p (Some k) w = Some \<lparr>err = e, badSignature = False\<rparr>"
    using art read_quiet(1)[of "checkIfValid_ver2 (Some k)" L art e None, OF checkIfValid_ver2_quiet Some]
    by (auto simp: checkIfValid2_def)
  have c1: "checkIfValid L p kp w = Some e"
    using art kp read_quiet(1)[of "checkIfValid_ver (Some k)" L art e True, OF checkIfValid_ver_quiet Some]
    by (auto simp: checkIfValid_def)
  from Some v c2 c1 structure_structural[OF Some] show ?thesis by simp
next
  case None
  let ?ar = "(NewReader art)\<lparr>VerifySignatureCallback := Some (validate_verify (Some k))\<rparr>"
  obtain x r s' where ra: "ReadArtifact L ?ar (None, w) = (x, r, s')"
    by (cases "ReadArtifact L ?ar (None, w)") auto
  from ReadArtifact_quiet(1)[of "validate_verify (Some k)" ?ar art L "(None, w)"] ra None
  have x: "x = None" by (simp add: validate_verify_quiet)
  from ReadArtifact_quiet(2)[of "validate_verify (Some k)" ?ar art L "(None, w)"] ra None
  have st: "state r = Done" and s': "s' = (case art of
              File (Archive c) \<Rightarrow>
                (case containerSignature c of
                   Some sg \<Rightarrow> snd (validate_verify (Some k) (manifest_of c) sg (None, w))
                 | None \<Rightarrow> (None, w))
            | File (Data b) \<Rightarrow> (None, w)
            | Dir \<Rightarrow> (None, w))"
    by (simp_all add: validate_verify_quiet)
  from read_quiet(2)[of "checkIfValid_ver2 (Some k)" L art None, OF checkIfValid_ver2_quiet None]
  obtain r2 where rd2: "read L (Some (NewReader art)) (Some (checkIfValid_ver2 (Some k))) None None =
      (Inr r2,
       (case art of
              File (Archive c) \<Rightarrow>
                (case containerSignature c of
                   Some sg \<Rightarrow> snd (checkIfValid_ver2 (Some k) (manifest_of c) sg None)
                 | None \<Rightarrow> None)
            | File (Data b) \<Rightarrow> None
            | Dir \<Rightarrow> None))"
    by auto
  from read_quiet(2)[of "checkIfValid_ver (Some k)" L art True, OF checkIfValid_ver_quiet None]
  obtain r1 where rd1: "read L (Some (NewReader art)) (Some (checkIfValid_ver (Some k))) None True =
      (Inr r1,
       (case art of
              File (Archive c) \<Rightarrow>
                (case containerSignature c of
                   Some sg \<Rightarrow> snd (checkIfValid_ver (Some k) (manifest_of c) sg True)
                 | None \<Rightarrow> True)
            | File (Data b) \<Rightarrow> True
            | Dir \<Rightarrow> True))"
    by auto
  show ?thesis
  proof (cases "signature_check k art")
    case (Some e)
    from signature_check_SomeD[OF Some] obtain c sg where
      c: "art = File (Archive c)" "containerSignature c = Some sg" "Verify k (manifest_of c) sg = Some e"
      by auto
    from ra x s' c have v: "fst (validate L art (Some k) w) =
        Some (Wrap e ''artifact file formatted correctly, but error validating signature'')"
      by (simp add: validate_def validate_verify_def)
    from rd2 c art have c2: "checkIfValid2 L p (Some k) w =
        Some \<lparr>err = Err (''artifact file '' @ quote @ p @ quote @
                                 '' formatted correctly, but error validating signature: '' @
                                 Error e), badSignature = True\<rparr>"
      by (simp add: checkIfValid2_def checkIfValid_ver2_def)
    from rd1 c art kp have c1: "checkIfValid L p kp w =
        Some (Err (''Artifact file '' @ quote @ p @ quote @
                            '' formatted correctly, but error validating signature.''))"
      by (simp add: checkIfValid_def checkIfValid_ver_def)
    from None Some ra st v c2 c1 show ?thesis by simp
  next
    case nosig: None
    have quiet: "(case art of
              File (Archive c) \<Rightarrow>
                (case containerSignature c of
                   Some sg \<Rightarrow> Verify k (manifest_of c) sg
                 | None \<Rightarrow> None)
            | File (Data b) \<Rightarrow> None
            | Dir \<Rightarrow> None) = None"
      using nosig by (simp add: signature_check_def)
    from ra x s' quiet have v: "fst (validate L art (Some k) w) = None"
      by (auto simp: validate_def validate_verify_def split: node.splits content.splits option.splits)
    from rd2 quiet art have c2: "checkIfValid2 L p (Some k) w = None"
      by (auto simp: checkIfValid2_def checkIfValid_ver2_def split: node.splits content.splits option.splits)
    from rd1 quiet art kp have c1: "checkIfValid L p kp w = None"
      by (auto simp: checkIfValid_def checkIfValid_ver_def split: node.splits content.splits option.splits)
    from None nosig ra st v c2 c1 show ?thesis by simp
  qed
qed

text \<open>Claim C1 on the example: \<open>signed.mender\<close> read with \<open>key2\<close>, and
  \<open>corrupt.mender\<close>.\<close>

theorem C1_witness:
  "os_Open ''signed.mender'' example_world = Inr (File (Archive signed_artifact)) \<and>
   getKey example_lib ''key2'' example_world = Inr [2] \<and>
   structure example_lib (File (Archive signed_artifact)) = None \<and>
   signature_check [2] (File (Archive signed_artifact)) = Some SignatureInvalid \<and>
   fst (validate example_lib (File (Archive signed_artifact)) (Some [2]) example_world) =
     Some (Wrap SignatureInvalid
       ''artifact file formatted correctly, but error validating signature'') \<and>
   checkIfValid example_lib ''signed.mender'' ''key2'' example_world =
     Some (Err (''Artifact file '' @ quote @ ''signed.mender'' @ quote @
              '' formatted correctly, but error validating signature.'')) \<and>
   os_Open ''corrupt.mender'' example_world = Inr (File (Archive corrupt_artifact)) \<and>
   structure example_lib (File (Archive corrupt_artifact)) = Some (ChecksumMismatch ''rootfs.ext4'') \<and>
   fst (validate example_lib (File (Archive corrupt_artifact)) (Some [2]) example_world) =
     Some (ChecksumMismatch ''rootfs.ext4'') \<and>
   checkIfValid example_lib ''corrupt.mender'' ''key2'' example_world =
     Some (ChecksumMismatch ''rootfs.ext4'')"
proof -
  have o1: "os_Open ''signed.mender'' example_world = Inr (File (Archive signed_artifact))"
    by code_simp
  have o2: "os_Open ''corrupt.mender'' example_world = Inr (File (Archive corrupt_artifact))"
    by code_simp
  have k: "getKey example_lib ''key2'' example_world = Inr [2]" by code_simp
  have kp: "''key2'' \<noteq> []" by simp
  have st1: "structure example_lib (File (Archive signed_artifact)) = None" by code_simp
  have sc1: "signature_check [2] (File (Archive signed_artifact)) = Some SignatureInvalid"
    by code_simp
  have st2: "structure example_lib (File (Archive corrupt_artifact)) =
      Some (ChecksumMismatch ''rootfs.ext4'')" by code_simp
  from C1_signature_error_is_distinct[OF o1 kp k] st1 sc1
  have a: "fst (validate example_lib (File (Archive signed_artifact)) (Some [2]) example_world) =
     Some (Wrap SignatureInvalid
       ''artifact file formatted correctly, but error validating signature'') \<and>
   checkIfValid example_lib ''signed.mender'' ''key2'' example_world =
     Some (Err (''Artifact file '' @ quote @ ''signed.mender'' @ quote @
              '' formatted correctly, but error validating signature.''))"
    by simp
  from C1_signature_error_is_distinct[OF o2 kp k] st2
  have b: "fst (validate example_lib (File (Archive corrupt_artifact)) (Some [2]) example_world) =
     Some (ChecksumMismatch ''rootfs.ext4'') \<and>
   checkIfValid example_lib ''corrupt.mender'' ''key2'' example_world =
     Some (ChecksumMismatch ''rootfs.ext4'')"
    by simp
  from o1 o2 k st1 sc1 st2 a b show ?thesis by simp
qed

lemma checkIfValid_no_key:
  assumes "os_Open p w = Inr art"
  shows "checkIfValid L p [] w = structure L art"
proof (cases "structure L art")
  case (Some e)
  from read_quiet(1)[of "checkIfValid_ver None" L art e True, OF checkIfValid_ver_quiet Some]
  show ?thesis using assms Some by (auto simp: checkIfValid_def)
next
  case None
  from read_quiet(2)[of "checkIfValid_ver None" L art True, OF checkIfValid_ver_quiet None]
  obtain r1 where "read L (Some (NewReader art)) (Some (checkIfValid_ver None)) None True =
      (Inr r1,
       (case art of
              File (Archive c) \<Rightarrow>
                (case containerSignature c of
                   Some sg \<Rightarrow> snd (checkIfValid_ver None (manifest_of c) sg True)
                 | None \<Rightarrow> True)
            | File (Data b) \<Rightarrow> True
            | Dir \<Rightarrow> True))"
    by auto
  then show ?thesis
    using assms None
    by (auto simp: checkIfValid_def checkIfValid_ver_def split: node.splits content.splits option.splits)
qed

text \<open>
  Claim C2 fails in the main file. \<open>signed.mender\<close> is signed. With no key,
  \<open>checkIfValid\<close> of the main file returns no error and \<open>validateArtifact\<close> prints
  "validated successfully" and exits with status 0. The \<open>checkIfValid\<close> and \<open>validate\<close> of
  validate.go report "artifact is signed but no verification key was provided" on the
  same file, and \<open>readArtifact\<close> prints "signed but no key for verification provided".
\<close>

theorem C2_signed_artifact_without_key_validates:
  "containerSignature signed_artifact = Some (Sign [1] (manifest_of signed_artifact)) \<and>
   checkIfValid example_lib ''signed.mender'' [] example_world = None \<and>
   validateArtifact example_lib (example_context\<lparr>flag_key := []\<rparr>) example_world =
     (None, print (''Artifact file '' @ quote @ ''signed.mender'' @ quote @
                   '' validated successfully'' @ newline) example_world) \<and>
   exit_status (fst (validateArtifact example_lib (example_context\<lparr>flag_key := []\<rparr>)
                       example_world)) = 0 \<and>
   checkIfValid2 example_lib ''signed.mender'' None example_world =
     Some \<lparr>err = Err (''artifact file '' @ quote @ ''signed.mender'' @ quote @
                   '' formatted correctly, but error validating signature: '' @
                   ''artifact is signed but no verification key was provided''),
           badSignature = True\<rparr> \<and>
   fst (validate example_lib (File (Archive signed_artifact)) None example_world) =
     Some (Wrap (Err ''artifact is signed but no verification key was provided'')
             ''artifact file formatted correctly, but error validating signature'') \<and>
   stdout (snd (readArtifact example_lib (example_context\<lparr>flag_key := []\<rparr>) example_world)) ! 4 =
     ''  Signature: signed but no key for verification provided; '' @
     ''please use `-k` option for providing verification key'' @ newline"
  by code_simp

subsection \<open>Version 1\<close>






lemma os_Create_emitted: "emitted (snd (os_Create p w)) = emitted w"
  by (simp add: os_Create_def put_def)

lemma os_Remove_emitted: "emitted (snd (os_Remove p w)) = emitted w"
  by (simp add: os_Remove_def unlink_def split: option.splits node.splits)



subsection \<open>Repacking and signing\<close>

lemma os_Remove_other: "q \<noteq> p \<Longrightarrow> node_at (snd (os_Remove p w)) q = node_at w q"
  by (simp add: os_Remove_def split: option.splits node.splits)

lemma os_Remove_absent: "node_at w p = None \<Longrightarrow> os_Remove p w = (Some (OsError ''remove'' p), w)"
  by (simp add: os_Remove_def)

lemma temp_node_ok:
  assumes "temp_node n pre w = (Inr p, w1)"
  shows "node_at w p = None \<and> node_at w1 = (node_at w)(p \<mapsto> n)"
  using assms
  by (auto simp: temp_node_def Let_def fun_eq_iff split: list.splits if_splits)

lemma manifest_of_signature [simp]:
  "manifest_of (c\<lparr>containerSignature := x\<rparr>) = manifest_of c"
  by (simp add: manifest_of_def)

lemma assemble_fields [simp]:
  "formatName (assemble sg f v d n ps ss) = f"
  "formatVersion (assemble sg f v d n ps ss) = v"
  "deviceTypes (assemble sg f v d n ps ss) = d"
  "artifactName (assemble sg f v d n ps ss) = n"
  "updates (assemble sg f v d n ps ss) = ps"
  by (simp_all add: assemble_def Let_def)

lemma assemble_signed:
  "v \<noteq> 1 \<Longrightarrow> containerSignature (assemble (Some k) f v d n ps ss) =
     Some (Signature k (manifest_of (assemble (Some k) f v d n ps ss)))"
  by (simp add: assemble_def Let_def Sign_def manifest_of_def)

lemma WriteArtifact_assembled:
  "WriteArtifact L aw f v d n u s w = (None, w') \<Longrightarrow>
   \<exists>ps ss. node_at w' (sink aw) = Some (File (Archive (assemble (signer aw) f v d n ps ss)))"
proof -
  assume a: "WriteArtifact L aw f v d n u s w = (None, w')"
  then obtain ps ss where
    "w' = (put (sink aw) (File (Archive (assemble (signer aw) f v d n ps ss))) w)
            \<lparr>emitted := emitted w @ [(sink aw, Archive (assemble (signer aw) f v d n ps ss))]\<rparr>"
    by (auto simp: WriteArtifact_def emit_def split: if_splits sum.splits)
  then have "node_at w' (sink aw) = Some (File (Archive (assemble (signer aw) f v d n ps ss)))"
    by simp
  then show ?thesis by blast
qed

lemma read_ok:
  assumes "read L (Some ar) v cb s = (Inr r, s')" and "IsSigned ar = False"
  shows "\<exists>c. input ar = File (Archive c) \<and> (formatVersion c = 1 \<or> formatVersion c = 2) \<and>
             info r = \<lparr>Format = formatName c, Version = formatVersion c\<rparr> \<and>
             IsSigned r = (containerSignature c \<noteq> None) \<and>
             artifact_name r = artifactName c \<and> compatible_devices r = deviceTypes c \<and>
             installers r = map (\<lambda>p. (typeTag p, map fst (payloadFiles p))) (updates c)"
proof -
  define r1 where "r1 = (case v of None \<Rightarrow> ar | Some f \<Rightarrow> ar\<lparr>VerifySignatureCallback := Some f\<rparr>)"
  define r2 where "r2 = (case cb of None \<Rightarrow> r1 | Some f \<Rightarrow> r1\<lparr>ScriptsReadCallback := Some f\<rparr>)"
  have i: "input r2 = input ar" "IsSigned r2 = False"
    using assms(2) by (auto simp: r2_def r1_def split: option.splits)
  obtain x r3 s3 where ra: "ReadArtifact L r2 s = (x, r3, s3)" by (cases "ReadArtifact L r2 s")
  with assms(1) have "x = None" "r3 = r" "s3 = s'"
    by (cases x; simp add: read_def r1_def[symmetric] r2_def[symmetric])+
  with ra have "ReadArtifact L r2 s = (None, r, s')" by simp
  from ReadArtifact_ok[OF this] obtain c where
    "input r2 = File (Archive c)" "formatVersion c = 1 \<or> formatVersion c = 2"
    "info r = \<lparr>Format = formatName c, Version = formatVersion c\<rparr>"
    "IsSigned r = (IsSigned r2 \<or> containerSignature c \<noteq> None)"
    "artifact_name r = artifactName c" "compatible_devices r = deviceTypes c"
    "installers r = map (\<lambda>p. (typeTag p, map fst (payloadFiles p))) (updates c)"
    by (elim exE conjE)
  with i show ?thesis by (intro exI[of _ c]) simp
qed

lemma repack_recompose_ok:
  assumes "repack_recompose L ar to key nn data sDir w = (Inr (r, None), w')"
    and ar: "ar = NewReader from \<or> (\<exists>h. ar = RegisterHandler h (NewReader from))"
  shows "\<exists>c ps ss. from = File (Archive c) \<and> (formatVersion c = 1 \<or> formatVersion c = 2) \<and>
           info r = \<lparr>Format = formatName c, Version = formatVersion c\<rparr> \<and>
           IsSigned r = (containerSignature c \<noteq> None) \<and>
           node_at w' to = Some (File (Archive
             (assemble key (formatName c) (formatVersion c) (deviceTypes c)
                (if nn \<noteq> [] then nn else artifactName c) ps ss)))"
proof -
  obtain y w2 where rdy: "read L (Some ar) (Some repack_verify) (Some (storeScripts L sDir)) w = (y, w2)"
    by (cases "read L (Some ar) (Some repack_verify) (Some (storeScripts L sDir)) w")
  from assms(1) rdy obtain r0 where y: "y = Inr r0"
    by (cases y) (auto simp: repack_recompose_def)
  define hh where "hh = (if Version (info r0) = 1 then Inr (RootfsV1 data)
                 else if Version (info r0) = 2 then Inr (RootfsV2 data)
                 else Inl (Err (''unsupported artifact version: '' @
                             show_int (Version (info r0)))))"
  from assms(1) rdy y obtain h where h: "hh = Inr h"
    by (cases hh) (auto simp: repack_recompose_def hh_def)
  from assms(1) rdy y h obtain scr where scr: "scripts L [sDir] w2 = Inr scr"
    by (cases "scripts L [sDir] w2") (auto simp: repack_recompose_def hh_def[symmetric])
  obtain e0 w3 where wr0: "WriteArtifact L (case key of None \<Rightarrow> NewWriter to | Some k \<Rightarrow> NewWriterSigned to k)
                (Format (info r0)) (Version (info r0)) (compatible_devices r0)
                (if nn \<noteq> [] then nn else artifact_name r0) [h] scr w2 = (e0, w3)"
    by (cases "WriteArtifact L (case key of None \<Rightarrow> NewWriter to | Some k \<Rightarrow> NewWriterSigned to k)
                (Format (info r0)) (Version (info r0)) (compatible_devices r0)
                (if nn \<noteq> [] then nn else artifact_name r0) [h] scr w2")
  from assms(1) rdy y h scr wr0 have res: "(Inr (r0, e0), w3) = (Inr (r, None), w')"
    by (simp add: repack_recompose_def hh_def[symmetric])
  then have "r0 = r" "e0 = None" "w3 = w'" by auto
  with wr0 rdy y have
    rd: "read L (Some ar) (Some repack_verify) (Some (storeScripts L sDir)) w = (Inr r, w2)"
    and wr: "WriteArtifact L (case key of None \<Rightarrow> NewWriter to | Some k \<Rightarrow> NewWriterSigned to k)
                (Format (info r)) (Version (info r)) (compatible_devices r)
                (if nn \<noteq> [] then nn else artifact_name r) [h] scr w2 = (None, w')"
    by auto
  from ar have i: "input ar = from" "IsSigned ar = False"
    by (auto simp: NewReader_def RegisterHandler_def)
  from read_ok[OF rd i(2)] i(1)
  obtain c where c: "from = File (Archive c)" "formatVersion c = 1 \<or> formatVersion c = 2"
    "info r = \<lparr>Format = formatName c, Version = formatVersion c\<rparr>"
    "IsSigned r = (containerSignature c \<noteq> None)"
    "artifact_name r = artifactName c" "compatible_devices r = deviceTypes c"
    by auto
  have sk: "sink (case key of None \<Rightarrow> NewWriter to | Some k \<Rightarrow> NewWriterSigned to k) = to"
    "signer (case key of None \<Rightarrow> NewWriter to | Some k \<Rightarrow> NewWriterSigned to k) = key"
    by (cases key; simp add: NewWriter_def NewWriterSigned_def)+
  from WriteArtifact_assembled[OF wr] obtain ps ss where
    "node_at w' to = Some (File (Archive (assemble key (Format (info r)) (Version (info r))
        (compatible_devices r) (if nn \<noteq> [] then nn else artifact_name r) ps ss)))"
    unfolding sk by blast
  with c have "node_at w' to = Some (File (Archive
             (assemble key (formatName c) (formatVersion c) (deviceTypes c)
                (if nn \<noteq> [] then nn else artifactName c) ps ss)))" by simp
  with c show ?thesis by blast
qed

lemma repack_staged_ok:
  assumes "repack_staged L from to key nn df sDir w = (Inr (r, None), w')"
  shows "\<exists>c ps ss. from = File (Archive c) \<and> (formatVersion c = 1 \<or> formatVersion c = 2) \<and>
           info r = \<lparr>Format = formatName c, Version = formatVersion c\<rparr> \<and>
           IsSigned r = (containerSignature c \<noteq> None) \<and>
           node_at w' to = Some (File (Archive
             (assemble key (formatName c) (formatVersion c) (deviceTypes c)
                (if nn \<noteq> [] then nn else artifactName c) ps ss)))"
proof (cases "df = []")
  case False
  with assms have "repack_recompose L (NewReader from) to key nn df sDir w = (Inr (r, None), w')"
    by (simp add: repack_staged_def)
  from repack_recompose_ok[OF this] show ?thesis by blast
next
  case True
  obtain x w1 where t: "ioutil_TempFile ''mender'' w = (x, w1)"
    by (cases "ioutil_TempFile ''mender'' w")
  from assms True t obtain tmpData where "x = Inr tmpData"
    by (cases x) (auto simp: repack_staged_def)
  with assms True t have "repack_recompose L (RegisterHandler (repack_install L tmpData) (NewReader from))
      to key nn tmpData sDir w1 = (Inr (r, None), w')"
    by (simp add: repack_staged_def)
  from repack_recompose_ok[OF this] show ?thesis by blast
qed

lemma repack_ok:
  assumes rp: "repack L from to key nn df w = (Inr (r, None), w')"
    and to: "node_at w to \<noteq> None"
  shows "\<exists>c ps ss. from = File (Archive c) \<and> (formatVersion c = 1 \<or> formatVersion c = 2) \<and>
           info r = \<lparr>Format = formatName c, Version = formatVersion c\<rparr> \<and>
           IsSigned r = (containerSignature c \<noteq> None) \<and>
           node_at w' to = Some (File (Archive
             (assemble key (formatName c) (formatVersion c) (deviceTypes c)
                (if nn \<noteq> [] then nn else artifactName c) ps ss)))"
proof -
  from rp obtain sDir w1 w2 where
    td: "ioutil_TempDir ''mender'' w = (Inr sDir, w1)"
    and st: "repack_staged L from to key nn df sDir w1 = (Inr (r, None), w2)"
    and w': "w' = snd (os_Remove sDir w2)"
    by (auto simp: repack_def split: prod.splits sum.splits)
  from td temp_node_ok[of Dir "''mender''" w sDir w1] to have ne: "to \<noteq> sDir"
    by (auto simp: ioutil_TempDir_def)
  from os_Remove_other[OF ne, of w2] w' have "node_at w' to = node_at w2 to" by simp
  with repack_staged_ok[OF st] show ?thesis by simp
qed

text \<open>What \<open>signExisting\<close> does once its key is read, its temporary file is created, the
  artifact is open and \<open>repack\<close> has written the signed copy.\<close>

lemma signExisting_repacked:
  assumes a: "args c \<noteq> []" "flag_key c \<noteq> []"
    and k: "getKey L (flag_key c) w = Inr k"
    and t: "ioutil_TempFile ''mender-artifact'' w = (Inr tFile, w1)"
    and f: "os_Open (First (args c)) w1 = Inr f"
    and rp: "repack L f tFile (Some k) [] [] w1 = (Inr (r, None), w2)"
  shows "signExisting L c w =
     (if Version (info r) = 1
      then (Some (ExitError ''Can not sign v1 artifact'' 1), snd (os_Remove tFile w2))
      else if IsSigned r \<and> \<not> flag_force c
      then (Some (ExitError (''Trying to sign already signed artifact; '' @
                                ''please use force option'') 1), snd (os_Remove tFile w2))
      else (case os_Rename tFile (sign_target c) w2 of
              (Some e, w3) \<Rightarrow>
                (Some (ExitError (''Can not store signed artifact: '' @ Error e) 1),
                 snd (os_Remove tFile (snd (os_Remove tFile w3))))
            | (None, w3) \<Rightarrow> (None, snd (os_Remove tFile w3))))"
proof -
  from t temp_node_ok[of "File (Data [])" "''mender-artifact''" w tFile w1]
  have "node_at w1 tFile \<noteq> None" by (simp add: ioutil_TempFile_def)
  from repack_ok[OF rp this] have "Version (info r) = 1 \<or> Version (info r) = 2" by auto
  with a k t f rp show ?thesis
    by (auto simp: signExisting_def signExisting_created_def sign_target_def
             split: prod.splits option.splits)
qed

lemma os_Open_Inr: "os_Open p w = Inr f \<Longrightarrow> p \<noteq> [] \<and> node_at w p = Some f"
  by (auto simp: os_Open_def split: if_splits option.splits)

lemma temp_node_path: "temp_node n pre w = (Inr p, w1) \<Longrightarrow> temp_path pre w = Some p"
  by (auto simp: temp_node_def temp_path_def Let_def split: list.splits if_splits)


lemma signExisting_forced:
  assumes a: "args c \<noteq> []" "flag_key c \<noteq> []"
    and k: "getKey L (flag_key c) w = Inr k"
    and t: "ioutil_TempFile ''mender-artifact'' w = (Inr tFile, w1)"
    and f: "os_Open (First (args c)) w1 = Inr f"
    and rp: "repack L f tFile (Some k) [] [] w1 = (Inr (r, None), w2)"
    and v: "Version (info r) = 2" and go: "flag_force c \<or> \<not> IsSigned r"
    and tg: "sign_target c \<noteq> tFile" "node_at w2 (sign_target c) \<noteq> Some Dir"
  shows "fst (signExisting L c w) = None \<and> node_at (snd (signExisting L c w)) tFile = None \<and>
         (\<exists>a c0. f = File (Archive c0) \<and>
              node_at (snd (signExisting L c w)) (sign_target c) = Some (File (Archive a)) \<and>
              containerSignature a = Some (Signature k (manifest_of a)) \<and>
              formatName a = formatName c0 \<and> formatVersion a = formatVersion c0 \<and>
              deviceTypes a = deviceTypes c0 \<and> artifactName a = artifactName c0)"
proof -
  from t temp_node_ok[of "File (Data [])" "''mender-artifact''" w tFile w1]
  have tf: "node_at w1 tFile \<noteq> None" by (simp add: ioutil_TempFile_def)
  from repack_ok[OF rp tf] v obtain c0 ps ss where
    c0: "f = File (Archive c0)" "info r = \<lparr>Format = formatName c0, Version = formatVersion c0\<rparr>"
    and n2: "node_at w2 tFile = Some (File (Archive
             (assemble (Some k) (formatName c0) (formatVersion c0) (deviceTypes c0)
                (artifactName c0) ps ss)))"
    by auto
  define a where "a = assemble (Some k) (formatName c0) 2 (deviceTypes c0) (artifactName c0) ps ss"
  from c0 v n2 have n2': "node_at w2 tFile = Some (File (Archive a))" by (simp add: a_def)
  have sg: "containerSignature a = Some (Signature k (manifest_of a))"
    unfolding a_def by (rule assemble_signed) simp
  from os_Open_Inr[OF f] a have ne: "sign_target c \<noteq> []"
    by (auto simp: sign_target_def)
  define w3 where "w3 = put (sign_target c) (File (Archive a)) (unlink tFile w2)"
  from n2' ne tg have rn: "os_Rename tFile (sign_target c) w2 = (None, w3)"
    by (simp add: os_Rename_def w3_def)
  have n3: "node_at w3 tFile = None" "node_at w3 (sign_target c) = Some (File (Archive a))"
    using tg by (simp_all add: w3_def)
  from n3(1) have rm: "os_Remove tFile w3 = (Some (OsError ''remove'' tFile), w3)"
    by (rule os_Remove_absent)
  from signExisting_repacked[OF a k t f rp] v go rn rm
  have se: "signExisting L c w = (None, w3)" by auto
  have "formatName a = formatName c0" "formatVersion a = formatVersion c0"
    "deviceTypes a = deviceTypes c0" "artifactName a = artifactName c0"
    using c0 v by (simp_all add: a_def)
  with n3 sg c0(1) show ?thesis unfolding se by auto
qed


lemma signExisting_success:
  assumes ok: "signExisting L c w = (None, w')"
  shows "\<exists>k tFile w1 f r w2. args c \<noteq> [] \<and> flag_key c \<noteq> [] \<and>
     getKey L (flag_key c) w = Inr k \<and>
     ioutil_TempFile ''mender-artifact'' w = (Inr tFile, w1) \<and>
     os_Open (First (args c)) w1 = Inr f \<and>
     repack L f tFile (Some k) [] [] w1 = (Inr (r, None), w2)"
proof -
  from ok have a: "args c \<noteq> []" "flag_key c \<noteq> []"
    by (auto simp: signExisting_def split: if_splits)
  with ok obtain k where k: "getKey L (flag_key c) w = Inr k"
    by (cases "getKey L (flag_key c) w") (auto simp: signExisting_def)
  obtain x w1 where t: "ioutil_TempFile ''mender-artifact'' w = (x, w1)"
    by (cases "ioutil_TempFile ''mender-artifact'' w")
  with ok a k obtain tFile where x: "x = Inr tFile"
    by (cases x) (auto simp: signExisting_def)
  obtain res w2' where cr: "signExisting_created L c k tFile w1 = (res, w2')"
    by (cases "signExisting_created L c k tFile w1")
  with ok a k t x have res: "res = None" by (simp add: signExisting_def)
  from cr res obtain f where f: "os_Open (First (args c)) w1 = Inr f"
    by (cases "os_Open (First (args c)) w1") (auto simp: signExisting_created_def)
  obtain y w2 where rp: "repack L f tFile (Some k) [] [] w1 = (y, w2)"
    by (cases "repack L f tFile (Some k) [] [] w1")
  from cr res f rp obtain r where "y = Inr (r, None)"
    by (cases y) (auto simp: signExisting_created_def split: option.splits)
  with a k t x f rp show ?thesis by auto
qed




text \<open>
  Claim C10. When \<open>signExisting\<close> succeeds, the file at the output path, or at the
  artifact's own path when no output path is given, holds an artifact with the format,
  version, device types and name of the one that was signed, signed with the key of
  the invocation, and the temporary file the copy was written to is gone. The output
  path must not be the name the system gives that temporary file.
\<close>

theorem C10_signed_artifact_replaces_target:
  assumes ok: "signExisting L c w = (None, w')"
    and nt: "temp_path ''mender-artifact'' w \<noteq> Some (flag_output_path c)"
  shows "\<exists>k a c0. getKey L (flag_key c) w = Inr k \<and>
           node_at w (First (args c)) = Some (File (Archive c0)) \<and>
           node_at w' (if length (flag_output_path c) > 0 then flag_output_path c
                       else First (args c)) = Some (File (Archive a)) \<and>
           containerSignature a = Some (Sign k (manifest_of a)) \<and>
           formatName a = formatName c0 \<and> formatVersion a = formatVersion c0 \<and>
           deviceTypes a = deviceTypes c0 \<and> artifactName a = artifactName c0 \<and>
           (\<forall>t. temp_path ''mender-artifact'' w = Some t \<longrightarrow> node_at w' t = None)"
proof -
  from signExisting_success[OF ok] obtain k tFile w1 f r w2 where
    a: "args c \<noteq> []" "flag_key c \<noteq> []"
    and k: "getKey L (flag_key c) w = Inr k"
    and t: "ioutil_TempFile ''mender-artifact'' w = (Inr tFile, w1)"
    and f: "os_Open (First (args c)) w1 = Inr f"
    and rp: "repack L f tFile (Some k) [] [] w1 = (Inr (r, None), w2)"
    by blast
  from t have tp: "temp_path ''mender-artifact'' w = Some tFile"
    by (auto simp: ioutil_TempFile_def dest: temp_node_path)
  from t temp_node_ok[of "File (Data [])" "''mender-artifact''" w tFile w1]
  have tf: "node_at w1 tFile \<noteq> None" and tf': "node_at w1 tFile = Some (File (Data []))"
    and nw1: "node_at w1 = (node_at w)(tFile \<mapsto> File (Data []))"
    by (simp_all add: ioutil_TempFile_def)
  from repack_ok[OF rp tf] obtain c0 where c0: "f = File (Archive c0)"
    and v12: "Version (info r) = 1 \<or> Version (info r) = 2" by auto
  from os_Open_Inr[OF f] c0 tf' have ft: "First (args c) \<noteq> tFile" by auto
  with os_Open_Inr[OF f] c0 nw1 have src: "node_at w (First (args c)) = Some (File (Archive c0))"
    by auto
  have tg1: "sign_target c \<noteq> tFile"
  proof (cases "flag_output_path c = []")
    case False
    with nt tp show ?thesis by (auto simp: sign_target_def)
  next
    case True
    with ft show ?thesis by (simp add: sign_target_def)
  qed
  obtain x w3 where rnx: "os_Rename tFile (sign_target c) w2 = (x, w3)"
    by (cases "os_Rename tFile (sign_target c) w2")
  from signExisting_repacked[OF a k t f rp] ok rnx
  have eq: "(None, w') =
     (if Version (info r) = 1
      then (Some (ExitError ''Can not sign v1 artifact'' 1), snd (os_Remove tFile w2))
      else if IsSigned r \<and> \<not> flag_force c
      then (Some (ExitError (''Trying to sign already signed artifact; '' @
                                ''please use force option'') 1), snd (os_Remove tFile w2))
      else (case x of
              Some e \<Rightarrow>
                (Some (ExitError (''Can not store signed artifact: '' @ Error e) 1),
                 snd (os_Remove tFile (snd (os_Remove tFile w3))))
            | None \<Rightarrow> (None, snd (os_Remove tFile w3))))"
    by (cases x) simp_all
  have v: "Version (info r) \<noteq> 1"
  proof
    assume "Version (info r) = 1"
    with eq show False by simp
  qed
  have go: "flag_force c \<or> \<not> IsSigned r"
  proof (rule ccontr)
    assume "\<not> (flag_force c \<or> \<not> IsSigned r)"
    with eq v show False by simp
  qed
  have "x = None"
  proof (cases x)
    case None
    then show ?thesis .
  next
    case (Some e)
    with eq v go show ?thesis by auto
  qed
  with rnx have rn: "fst (os_Rename tFile (sign_target c) w2) = None" by simp
  from v v12 have v2: "Version (info r) = 2" by simp
  from rn tg1 have tg2: "node_at w2 (sign_target c) \<noteq> Some Dir"
    by (auto simp: os_Rename_def split: option.splits node.splits if_splits)
  from signExisting_forced[OF a k t f rp v2 go tg1 tg2] obtain x x0 where
    x: "f = File (Archive x0)" "node_at (snd (signExisting L c w)) tFile = None"
    "node_at (snd (signExisting L c w)) (sign_target c) = Some (File (Archive x))"
    "containerSignature x = Some (Signature k (manifest_of x))"
    "formatName x = formatName x0" "formatVersion x = formatVersion x0"
    "deviceTypes x = deviceTypes x0" "artifactName x = artifactName x0"
    by auto
  from x(1) c0 have "x0 = c0" by simp
  with x ok tp k src show ?thesis
    by (intro exI[of _ k] exI[of _ x] exI[of _ c0]) (simp add: Sign_def sign_target_def)
qed

text \<open>Claim C10 on the example: in place, and with the output path
  \<open>out.mender\<close>.\<close>

theorem C10_witness:
  "fst (signExisting example_lib (example_context\<lparr>flag_force := True\<rparr>) example_world) = None \<and>
   fst (signExisting example_lib
          (example_context\<lparr>flag_force := True, flag_output_path := ''out.mender''\<rparr>)
          example_world) = None \<and>
   temp_path ''mender-artifact'' example_world = Some ''/tmp/mender-artifact001'' \<and>
   getKey example_lib ''key2'' example_world = Inr [2] \<and>
   (\<exists>a. node_at (snd (signExisting example_lib (example_context\<lparr>flag_force := True\<rparr>)
                      example_world)) ''signed.mender'' = Some (File (Archive a)) \<and>
        containerSignature a = Some (Sign [2] (manifest_of a))) \<and>
   node_at (snd (signExisting example_lib (example_context\<lparr>flag_force := True\<rparr>) example_world))
     ''/tmp/mender-artifact001'' = None \<and>
   (\<exists>a. node_at (snd (signExisting example_lib
                      (example_context\<lparr>flag_force := True, flag_output_path := ''out.mender''\<rparr>)
                      example_world)) ''out.mender'' = Some (File (Archive a)) \<and>
        containerSignature a = Some (Sign [2] (manifest_of a)))"
proof -
  let ?c = "example_context\<lparr>flag_force := True\<rparr>"
  let ?d = "example_context\<lparr>flag_force := True, flag_output_path := ''out.mender''\<rparr>"
  define w' where "w' = snd (signExisting example_lib ?c example_world)"
  define v' where "v' = snd (signExisting example_lib ?d example_world)"
  have ok0: "fst (signExisting example_lib ?c example_world) = None" by code_simp
  then have ok: "signExisting example_lib ?c example_world = (None, w')"
    by (cases "signExisting example_lib ?c example_world") (simp add: w'_def)
  have ok1: "fst (signExisting example_lib ?d example_world) = None" by code_simp
  then have ok': "signExisting example_lib ?d example_world = (None, v')"
    by (cases "signExisting example_lib ?d example_world") (simp add: v'_def)
  have tp: "temp_path ''mender-artifact'' example_world = Some ''/tmp/mender-artifact001''"
    by code_simp
  have k: "getKey example_lib ''key2'' example_world = Inr [2]" by code_simp
  have fc: "flag_key ?c = ''key2''" "flag_output_path ?c = []" "First (args ?c) = ''signed.mender''"
    by (simp_all add: example_context_def First_def)
  have fd: "flag_key ?d = ''key2''" "flag_output_path ?d = ''out.mender''"
    by (simp_all add: example_context_def)
  have nt: "temp_path ''mender-artifact'' example_world \<noteq> Some (flag_output_path ?c)"
    using tp fc by simp
  have nt': "temp_path ''mender-artifact'' example_world \<noteq> Some (flag_output_path ?d)"
    using tp fd by simp
  from C10_signed_artifact_replaces_target[OF ok nt] tp k fc
  have a: "(\<exists>a. node_at w' ''signed.mender'' = Some (File (Archive a)) \<and>
        containerSignature a = Some (Sign [2] (manifest_of a))) \<and>
      node_at w' ''/tmp/mender-artifact001'' = None"
    by auto
  from C10_signed_artifact_replaces_target[OF ok' nt'] tp k fd
  have b: "\<exists>a. node_at v' ''out.mender'' = Some (File (Archive a)) \<and>
        containerSignature a = Some (Sign [2] (manifest_of a))"
    by auto
  from ok0 ok1 tp k a b show ?thesis unfolding w'_def v'_def by simp
qed




text \<open>
  Claim C3 fails in \<open>repackArtifact\<close>. Called with the replacement payload
  \<open>new.ext4\<close> (content \<open>[9, 9, 9]\<close>) and no new name, it writes an artifact whose name is
  \<open>new.ext4\<close> and whose checksum is that of the old payload \<open>[7, 8]\<close>. \<open>repack\<close> itself,
  given the same file as \<open>dataFile\<close>, keeps the name and records the checksum of the
  replacement.
\<close>

theorem C3_repackArtifact_swaps_name_and_payload:
  "os_Open ''new.ext4'' example_world = Inr (File (Data [9, 9, 9])) \<and>
   fst (repackArtifact example_lib ''signed.mender'' ''new.ext4'' [] [] example_world) = None \<and>
   map artifactName
     (artifacts_written
        (snd (repackArtifact example_lib ''signed.mender'' ''new.ext4'' [] [] example_world))) =
     [''new.ext4''] \<and>
   concat (map checksums
     (artifacts_written
        (snd (repackArtifact example_lib ''signed.mender'' ''new.ext4'' [] [] example_world)))) =
     [Digest [7, 8]] \<and>
   map artifactName
     (artifacts_written
        (snd (repack example_lib (File (Archive signed_artifact)) ''out.mender'' None []
                ''new.ext4'' example_world))) =
     [''release-1''] \<and>
   concat (map checksums
     (artifacts_written
        (snd (repack example_lib (File (Archive signed_artifact)) ''out.mender'' None []
                ''new.ext4'' example_world)))) =
     [Digest [9, 9, 9]]"
  by code_simp

text \<open>
  Claim C9 fails. After \<open>signExisting\<close> on \<open>signed.mender\<close>, with \<open>force\<close> (success) and
  without (failure), the script staging directory, the staged script and the staged
  payload file, none of which existed before, are still there. After \<open>repackArtifact\<close>
  the temporary output file is still there.
\<close>

theorem C9_sign_leaves_staged_files:
  "map (node_at example_world)
     [''/tmp/mender002'', ''/tmp/mender002/ArtifactInstall_Enter_10'', ''/tmp/mender003''] =
     [None, None, None] \<and>
   fst (signExisting example_lib (example_context\<lparr>flag_force := True\<rparr>) example_world) = None \<and>
   map (node_at (snd (signExisting example_lib (example_context\<lparr>flag_force := True\<rparr>) example_world)))
     [''/tmp/mender002'', ''/tmp/mender002/ArtifactInstall_Enter_10'', ''/tmp/mender003''] =
     [Some Dir, Some (File (Data [5])), Some (File (Data [7, 8]))] \<and>
   fst (signExisting example_lib example_context example_world) =
     Some (ExitError (''Trying to sign already signed artifact; '' @
                      ''please use force option'') 1) \<and>
   map (node_at (snd (signExisting example_lib example_context example_world)))
     [''/tmp/mender002'', ''/tmp/mender002/ArtifactInstall_Enter_10'', ''/tmp/mender003''] =
     [Some Dir, Some (File (Data [5])), Some (File (Data [7, 8]))] \<and>
   fst (repackArtifact example_lib ''signed.mender'' [] [] [] example_world) = None \<and>
   (case node_at (snd (repackArtifact example_lib ''signed.mender'' [] [] [] example_world))
           ''/tmp/mender-artifact001'' of
      Some (File (Archive a)) \<Rightarrow> True
    | Some (File (Data b)) \<Rightarrow> False
    | Some Dir \<Rightarrow> False
    | None \<Rightarrow> False)"
  by code_simp

subsection \<open>The white-space check of the artifact name\<close>

lemma writeRootfs_guard_passes:
  "writeRootfs L (example_context\<lparr>flag_artifact_name := ''release-3 ''\<rparr>) w =
   writeArtifact L (example_context\<lparr>flag_artifact_name := ''release-3 ''\<rparr>) w"
proof -
  have "strings_Fields ''release-3 '' = [''release-3'']" by code_simp
  then show ?thesis by (simp add: writeRootfs_def example_context_def)
qed

text \<open>
  Claim C8 fails for white space at the end of the name. \<open>release-3 \<close> with a trailing
  space has one field, so the action of \<open>write rootfs-image\<close> is \<open>writeArtifact\<close> for
  every library and world; with a writer that accepts the request the artifact is
  written under that name.
\<close>

theorem C8_name_with_trailing_space_is_written:
  "list_ex isSpace ''release-3 '' \<and>
   strings_Fields ''release-3 '' = [''release-3''] \<and>
   fst (writeRootfs example_lib (example_context\<lparr>flag_artifact_name := ''release-3 ''\<rparr>)
          example_world) = None \<and>
   map artifactName
     (artifacts_written
        (snd (writeRootfs example_lib (example_context\<lparr>flag_artifact_name := ''release-3 ''\<rparr>)
                example_world))) = [''release-3 ''] \<and>
   (\<forall>L w. writeRootfs L (example_context\<lparr>flag_artifact_name := ''release-3 ''\<rparr>) w =
           writeArtifact L (example_context\<lparr>flag_artifact_name := ''release-3 ''\<rparr>) w)"
proof -
  have "list_ex isSpace ''release-3 '' \<and>
   strings_Fields ''release-3 '' = [''release-3''] \<and>
   fst (writeRootfs example_lib (example_context\<lparr>flag_artifact_name := ''release-3 ''\<rparr>)
          example_world) = None \<and>
   map artifactName
     (artifacts_written
        (snd (writeRootfs example_lib (example_context\<lparr>flag_artifact_name := ''release-3 ''\<rparr>)
                example_world))) = [''release-3 '']"
    by code_simp
  with writeRootfs_guard_passes show ?thesis by blast
qed

subsection \<open>Reading and validating a badly signed artifact\<close>

lemma readArtifact_ver_quiet: "fst (readArtifact_ver vc m sg s) = None"
  by (simp add: readArtifact_ver_def split: option.splits)

lemma readArtifact_readScripts_quiet: "fst (readArtifact_readScripts r n s) = None"
  by (simp add: readArtifact_readScripts_def)

lemma readScripts_names:
  "fst (readScripts L None xs ()) = None \<Longrightarrow>
   readScripts L (Some readArtifact_readScripts) xs s = (None, (fst s, snd s @ map fst xs))"
proof (induction xs arbitrary: s)
  case Nil
  show ?case by simp
next
  case (Cons x xs)
  from Cons.prems have v: "valid_script L (fst x)" and r: "fst (readScripts L None xs ()) = None"
    by (auto split: if_splits)
  from Cons.IH[OF r, of "(fst s, snd s @ [fst x])"] v show ?case
    by (simp add: readArtifact_readScripts_def)
qed

lemma structure_Archive:
  "structure L (File (Archive c)) =
     (if formatVersion c = 1 \<or> formatVersion c = 2
      then (if formatVersion c = 1 \<and> \<not> (containerSignature c = None \<and> containerScripts c = [])
            then Some FormatError
            else (case fst (readPayloads None (updates c) ()) of
                    Some e \<Rightarrow> Some e
                  | None \<Rightarrow> fst (readScripts L None (containerScripts c) ())))
      else Some FormatError)"
proof -
  define e1 where "e1 = fst (readPayloads None (updates c) ())"
  define e2 where "e2 = fst (readScripts L None (containerScripts c) ())"
  have pu: "readPayloads None (updates c) () = (e1, ())"
    unfolding e1_def by (rule readPayloads_None)
  have qu: "readScripts L None (containerScripts c) () = (e2, ())"
    unfolding e2_def by (rule readScripts_None)
  show ?thesis
    unfolding e1_def[symmetric] e2_def[symmetric]
    using pu qu
    by (cases e1; cases e2; cases "containerSignature c")
       (auto simp: structure_def ReadArtifact_def readVersion_def readHeader_def NewReader_def Let_def)
qed

lemma readArtifact_read_ok:
  assumes st: "structure L (File (Archive a)) = None"
  shows "\<exists>r. read L (Some (NewReader (File (Archive a)))) (Some (readArtifact_ver vc))
             (Some readArtifact_readScripts) (s0, []) =
           (Inr r,
            (case containerSignature a of
               None \<Rightarrow> s0
             | Some sg \<Rightarrow> fst (snd (readArtifact_ver vc (manifest_of a) sg (s0, [])))),
            map fst (containerScripts a)) \<and>
           info r = \<lparr>Format = formatName a, Version = formatVersion a\<rparr> \<and>
           artifact_name r = artifactName a \<and> compatible_devices r = deviceTypes a \<and>
           installers r = map (\<lambda>p. (typeTag p, map fst (payloadFiles p))) (updates a)"
proof -
  define ar where "ar = ((NewReader (File (Archive a)))\<lparr>VerifySignatureCallback := Some (readArtifact_ver vc),
      ScriptsReadCallback := Some readArtifact_readScripts\<rparr> :: (string \<times> string list) Reader)"
  from st have ver: "formatVersion a = 1 \<or> formatVersion a = 2"
    and hd: "\<not> (formatVersion a = 1 \<and> \<not> (containerSignature a = None \<and> containerScripts a = []))"
    and e1: "fst (readPayloads None (updates a) ()) = None"
    and e2: "fst (readScripts L None (containerScripts a) ()) = None"
    by (auto simp: structure_Archive split: if_splits option.splits)
  have p: "readPayloads None (updates a) t = (None, t)" for t :: "string \<times> string list"
    using readPayloads_None[of "updates a" t] e1 by simp
  define s1 where "s1 = (case containerSignature a of
               None \<Rightarrow> (s0, [])
             | Some sg \<Rightarrow> snd (readArtifact_ver vc (manifest_of a) sg (s0, [])))"
  have s1snd: "snd s1 = []"
    by (auto simp: s1_def readArtifact_ver_def split: option.splits)
  have rh: "\<exists>ar2. readHeader a (ar\<lparr>info := \<lparr>Format = formatName a, Version = formatVersion a\<rparr>,
                          state := AwaitingHeader\<rparr>) (s0, []) = (None, ar2, s1)"
  proof (cases "containerSignature a")
    case None
    with hd show ?thesis by (auto simp: readHeader_def Let_def s1_def)
  next
    case (Some sg)
    obtain s' where "readArtifact_ver vc (manifest_of a) sg (s0, []) = (None, s')"
      using readArtifact_ver_quiet[of vc "manifest_of a" sg "(s0, [])"]
      by (cases "readArtifact_ver vc (manifest_of a) sg (s0, [])") auto
    with Some hd show ?thesis
      by (auto simp: readHeader_def Let_def s1_def ar_def NewReader_def)
  qed
  then obtain ar2 where rh2: "readHeader a (ar\<lparr>info := \<lparr>Format = formatName a, Version = formatVersion a\<rparr>,
                          state := AwaitingHeader\<rparr>) (s0, []) = (None, ar2, s1)" by blast
  have ra: "ReadArtifact L ar (s0, []) = (None, ar2\<lparr>state := Done\<rparr>, (fst s1, map fst (containerScripts a)))"
    using ver rh2 p[of s1] readScripts_names[OF e2, of s1] s1snd
    by (auto simp: ReadArtifact_def readVersion_def ar_def NewReader_def)
  have rd: "read L (Some (NewReader (File (Archive a)))) (Some (readArtifact_ver vc))
             (Some readArtifact_readScripts) (s0, []) =
           (Inr (ar2\<lparr>state := Done\<rparr>), (fst s1, map fst (containerScripts a)))"
    using ra by (simp add: read_def ar_def)
  have "IsSigned (NewReader (File (Archive a)) :: (string \<times> string list) Reader) = False"
    by (simp add: NewReader_def)
  from read_ok[OF rd this]
  have "info (ar2\<lparr>state := Done\<rparr>) = \<lparr>Format = formatName a, Version = formatVersion a\<rparr> \<and>
           artifact_name (ar2\<lparr>state := Done\<rparr>) = artifactName a \<and>
           compatible_devices (ar2\<lparr>state := Done\<rparr>) = deviceTypes a \<and>
           installers (ar2\<lparr>state := Done\<rparr>) = map (\<lambda>p. (typeTag p, map fst (payloadFiles p))) (updates a)"
    by (auto simp: NewReader_def)
  moreover have "fst s1 = (case containerSignature a of
               None \<Rightarrow> s0
             | Some sg \<Rightarrow> fst (snd (readArtifact_ver vc (manifest_of a) sg (s0, []))))"
    by (simp add: s1_def split: option.splits)
  ultimately show ?thesis using rd by (intro exI[of _ "ar2\<lparr>state := Done\<rparr>"]) simp
qed

lemma checkIfValid_keyed:
  assumes art: "os_Open p w = Inr art" and kp: "kp \<noteq> []" "getKey L kp w = Inr k"
  shows "checkIfValid L p kp w =
     (case structure L art of
        Some e \<Rightarrow> Some e
      | None \<Rightarrow>
          (case signature_check k art of
             Some e \<Rightarrow> Some (Err (''Artifact file '' @ quote @ p @ quote @
                            '' formatted correctly, but error validating signature.''))
           | None \<Rightarrow> None))"
proof (cases "structure L art")
  case (Some e)
  from read_quiet(1)[of "checkIfValid_ver (Some k)" L art e True, OF checkIfValid_ver_quiet Some]
  show ?thesis using art kp Some by (auto simp: checkIfValid_def)
next
  case None
  from read_quiet(2)[of "checkIfValid_ver (Some k)" L art True, OF checkIfValid_ver_quiet None]
  obtain r1 where rd1: "read L (Some (NewReader art)) (Some (checkIfValid_ver (Some k))) None True =
      (Inr r1,
       (case art of
              File (Archive c) \<Rightarrow>
                (case containerSignature c of
                   Some sg \<Rightarrow> snd (checkIfValid_ver (Some k) (manifest_of c) sg True)
                 | None \<Rightarrow> True)
            | File (Data b) \<Rightarrow> True
            | Dir \<Rightarrow> True))"
    by auto
  show ?thesis
    using art kp None rd1
    by (auto simp: checkIfValid_def checkIfValid_ver_def signature_check_def
             split: node.splits content.splits option.splits)
qed

text \<open>
  Claim C6, as the code has it. On a structurally sound artifact whose signature does
  not verify with the given key, \<open>readArtifact\<close> prints the whole description (name,
  format, version, the signature line "signed; verification using provided key failed",
  devices, scripts, the files of every payload) and returns no error, so the exit
  status is 0. \<open>validateArtifact\<close> prints nothing and returns the exit error "formatted
  correctly, but error validating signature" with status 1.
\<close>

theorem C6_read_describes_validate_fails:
  assumes a: "args c \<noteq> []" and kf: "flag_key c \<noteq> []"
    and k: "getKey L (flag_key c) w = Inr k"
    and art: "os_Open (First (args c)) w = Inr (File (Archive a))"
    and st: "structure L (File (Archive a)) = None"
    and sc: "signature_check k (File (Archive a)) = Some e"
  shows "(\<exists>r. readArtifact L c w =
                (None, describe L r ''signed; verification using provided key failed''
                         (map fst (containerScripts a)) w) \<and>
              info r = \<lparr>Format = formatName a, Version = formatVersion a\<rparr> \<and>
              artifact_name r = artifactName a \<and> compatible_devices r = deviceTypes a \<and>
              installers r = map (\<lambda>p. (typeTag p, map fst (payloadFiles p))) (updates a)) \<and>
         exit_status (fst (readArtifact L c w)) = 0 \<and>
         validateArtifact L c w =
           (Some (ExitError (''Artifact file '' @ quote @ First (args c) @ quote @
                    '' formatted correctly, but error validating signature.'') 1), w) \<and>
         exit_status (fst (validateArtifact L c w)) = 1"
proof -
  from signature_check_SomeD[OF sc] obtain sg where
    sg: "containerSignature a = Some sg" "Verify k (manifest_of a) sg = Some e" by auto
  from readArtifact_read_ok[OF st, of "Some k" "''no signature''"] sg obtain r where
    r: "read L (Some (NewReader (File (Archive a)))) (Some (readArtifact_ver (Some k)))
             (Some readArtifact_readScripts) (''no signature'', []) =
           (Inr r, ''signed; verification using provided key failed'', map fst (containerScripts a))"
      "info r = \<lparr>Format = formatName a, Version = formatVersion a\<rparr>"
      "artifact_name r = artifactName a" "compatible_devices r = deviceTypes a"
      "installers r = map (\<lambda>p. (typeTag p, map fst (payloadFiles p))) (updates a)"
    by (auto simp: readArtifact_ver_def)
  have ra: "readArtifact L c w =
      (None, describe L r ''signed; verification using provided key failed''
                         (map fst (containerScripts a)) w)"
    using a kf k art r(1) by (simp add: readArtifact_def)
  have va: "validateArtifact L c w =
           (Some (ExitError (''Artifact file '' @ quote @ First (args c) @ quote @
                    '' formatted correctly, but error validating signature.'') 1), w)"
    using a checkIfValid_keyed[OF art kf k] st sc by (simp add: validateArtifact_def)
  from ra r va show ?thesis by auto
qed

text \<open>Claim C6 as stated fails on the example: \<open>read\<close> of the badly signed
  \<open>signed.mender\<close> exits with status 0, and \<open>validate\<close> prints no description.\<close>

theorem C6_counterexample:
  "structure example_lib (File (Archive signed_artifact)) = None \<and>
   signature_check [2] (File (Archive signed_artifact)) = Some SignatureInvalid \<and>
   getKey example_lib (flag_key example_context) example_world = Inr [2] \<and>
   os_Open (First (args example_context)) example_world = Inr (File (Archive signed_artifact)) \<and>
   exit_status (fst (readArtifact example_lib example_context example_world)) = 0 \<and>
   stdout (snd (validateArtifact example_lib example_context example_world)) = []"
  by code_simp

text \<open>Claim C6, as the code has it, on the example.\<close>

theorem C6_witness:
  "args example_context \<noteq> [] \<and> flag_key example_context \<noteq> [] \<and>
   getKey example_lib (flag_key example_context) example_world = Inr [2] \<and>
   os_Open (First (args example_context)) example_world = Inr (File (Archive signed_artifact)) \<and>
   structure example_lib (File (Archive signed_artifact)) = None \<and>
   signature_check [2] (File (Archive signed_artifact)) = Some SignatureInvalid \<and>
   exit_status (fst (readArtifact example_lib example_context example_world)) = 0 \<and>
   validateArtifact example_lib example_context example_world =
     (Some (ExitError (''Artifact file '' @ quote @ ''signed.mender'' @ quote @
              '' formatted correctly, but error validating signature.'') 1), example_world)"
proof -
  have a: "args example_context \<noteq> []" "flag_key example_context \<noteq> []"
    "First (args example_context) = ''signed.mender''"
    by (simp_all add: example_context_def First_def)
  have k: "getKey example_lib (flag_key example_context) example_world = Inr [2]" by code_simp
  have o: "os_Open (First (args example_context)) example_world =
      Inr (File (Archive signed_artifact))" by code_simp
  have st: "structure example_lib (File (Archive signed_artifact)) = None" by code_simp
  have sc: "signature_check [2] (File (Archive signed_artifact)) = Some SignatureInvalid"
    by code_simp
  from C6_read_describes_validate_fails[OF a(1,2) k o st sc] a(3)
  have "exit_status (fst (readArtifact example_lib example_context example_world)) = 0 \<and>
   validateArtifact example_lib example_context example_world =
     (Some (ExitError (''Artifact file '' @ quote @ ''signed.mender'' @ quote @
              '' formatted correctly, but error validating signature.'') 1), example_world)"
    by simp
  with a k o st sc show ?thesis by simp
qed

end
